theory Spec2Isabelle
  imports Complex_Main
begin

section \<open>Signal fusion and calibration engine (services/improved\_detection.py)\<close>

text \<open>
  The development embeds the decision logic of \<^verbatim>\<open>improved_detection.py\<close>:
  the rhetorical analyzer, the detector fusion, the cross-modal checker and the class
  \<^verbatim>\<open>ImprovedDetection\<close> with its verification fast path and its final calibrator,
  and the scoring of \<^verbatim>\<open>TavilyVerifier\<close> that the verification calls.

  Conventions of the embedding.
  \<^item> A Python float is a \<^typ>\<open>real\<close>: the arithmetic is the exact one, without the
    rounding of IEEE doubles. The one float that is not a number and that the code can
    produce (\<^verbatim>\<open>np.mean([])\<close>) is the constructor \<open>NaN\<close> of \<open>pyfloat\<close>.
  \<^item> A Python int is an \<^typ>\<open>int\<close>; \<^verbatim>\<open>a / b\<close> on ints is the real quotient.
  \<^item> A Python str is a \<^typ>\<open>string\<close> of ASCII characters.
  \<^item> A dict that the code reads with \<^verbatim>\<open>d.get(key, default)\<close> is a record whose
    fields are the keys the code writes, each an \<^typ>\<open>'a option\<close> (\<open>None\<close>: key absent);
    \<open>dget\<close> is the lookup with a default.
  \<^item> An exception is a value \<open>Inl e\<close> of \<open>py_error + 'a\<close>.
  \<^item> What the external libraries compute (spaCy, textstat, the Tavily client, the
    regular expressions of the loaded-language, spatial and logical checks) is an input
    of the model, and so is the point that the verification has reached when its
    deadline passes.
\<close>

subsection \<open>Python values\<close>

datatype py_error = ZeroDivisionError | ValueError | TimeoutError | Exception string

datatype pyfloat = Num real | NaN

definition dget :: "'a option \<Rightarrow> 'a \<Rightarrow> 'a" where
  "dget v d = (case v of None \<Rightarrow> d | Some x \<Rightarrow> x)"

subsection \<open>Strings and the regular expressions on years and keywords\<close>

definition ord :: "char \<Rightarrow> nat" where
  "ord c = of_char c"

definition is_digit :: "char \<Rightarrow> bool" where
  "is_digit c = (48 \<le> ord c \<and> ord c \<le> 57)"

text \<open>\<^verbatim>\<open>\w\<close>: a letter, a digit or the underscore.\<close>

definition is_word_char :: "char \<Rightarrow> bool" where
  "is_word_char c =
     (is_digit c \<or> (65 \<le> ord c \<and> ord c \<le> 90) \<or> (97 \<le> ord c \<and> ord c \<le> 122) \<or> ord c = 95)"

text \<open>The whitespace of \<^verbatim>\<open>str.split()\<close> and \<^verbatim>\<open>str.strip()\<close>.\<close>

definition is_space :: "char \<Rightarrow> bool" where
  "is_space c = ((9 \<le> ord c \<and> ord c \<le> 13) \<or> (28 \<le> ord c \<and> ord c \<le> 32))"

definition to_lower :: "char \<Rightarrow> char" where
  "to_lower c = (if 65 \<le> ord c \<and> ord c \<le> 90 then char_of (ord c + 32) else c)"

definition lower :: "string \<Rightarrow> string" where
  "lower s = map to_lower s"

text \<open>\<^verbatim>\<open>s.startswith(w)\<close>.\<close>

fun startswith :: "string \<Rightarrow> string \<Rightarrow> bool" where
  "startswith s [] = True"
| "startswith [] (w # ws) = False"
| "startswith (c # cs) (w # ws) = (c = w \<and> startswith cs ws)"

text \<open>\<^verbatim>\<open>w in s\<close> on strings.\<close>

fun contains :: "string \<Rightarrow> string \<Rightarrow> bool" where
  "contains [] w = (w = [])"
| "contains (c # cs) w = (startswith (c # cs) w \<or> contains cs w)"

text \<open>
  \<^verbatim>\<open>\b\<close> between the character before the position (\<open>None\<close> at the start of the
  string) and the character after it (\<open>None\<close> at the end).
\<close>

definition opt_word :: "char option \<Rightarrow> bool" where
  "opt_word c = (case c of None \<Rightarrow> False | Some x \<Rightarrow> is_word_char x)"

definition boundary :: "char option \<Rightarrow> char option \<Rightarrow> bool" where
  "boundary prev nxt = (opt_word prev \<noteq> opt_word nxt)"

definition char_at :: "string \<Rightarrow> nat \<Rightarrow> char option" where
  "char_at s i = (if i < length s then Some (s ! i) else None)"

text \<open>
  \<^verbatim>\<open>re.findall\<close> for a pattern that never matches the empty string: \<open>m prev s\<close> is the
  length of the match of the pattern at the head of \<open>s\<close>, where \<open>prev\<close> is the character
  before it; the scan resumes after a match, and one character further otherwise. The
  result lists the matched texts.
\<close>

function findall :: "(char option \<Rightarrow> string \<Rightarrow> nat option) \<Rightarrow> char option \<Rightarrow> string \<Rightarrow> string list" where
  "findall m prev [] = []"
| "findall m prev (c # cs) =
     (case m prev (c # cs) of
        None \<Rightarrow> findall m (Some c) cs
      | Some n \<Rightarrow>
          if 0 < n then take n (c # cs) # findall m (char_at (c # cs) (n - 1)) (drop n (c # cs))
          else findall m (Some c) cs)"
  by pat_completeness auto
termination
  by (relation "measure (\<lambda>(m, prev, s). length s)") auto

text \<open>\<^verbatim>\<open>\b(\d{4})\b\<close> at the head of \<open>s\<close>.\<close>

definition match_four_digits :: "char option \<Rightarrow> string \<Rightarrow> nat option" where
  "match_four_digits prev s =
     (if boundary prev (char_at s 0) \<and> 4 \<le> length s \<and> list_all is_digit (take 4 s)
         \<and> boundary (char_at s 3) (char_at s 4)
      then Some 4 else None)"

text \<open>\<^verbatim>\<open>\b(18|19|20)\d{2}\b\<close> at the head of \<open>s\<close>.\<close>

definition match_modern_year :: "char option \<Rightarrow> string \<Rightarrow> nat option" where
  "match_modern_year prev s =
     (if boundary prev (char_at s 0) \<and> 4 \<le> length s
         \<and> (startswith s ''18'' \<or> startswith s ''19'' \<or> startswith s ''20'')
         \<and> list_all is_digit (take 2 (drop 2 s))
         \<and> boundary (char_at s 3) (char_at s 4)
      then Some 4 else None)"

text \<open>
  \<^verbatim>\<open>\b(w1|w2|...)\b\<close> at the head of \<open>s\<close>: the alternatives are tried in order, and one
  that is not followed by a boundary is given up for the next.
\<close>

fun match_alternatives :: "string list \<Rightarrow> char option \<Rightarrow> string \<Rightarrow> nat option" where
  "match_alternatives [] prev s = None"
| "match_alternatives (w # ws) prev s =
     (if boundary prev (char_at s 0) \<and> startswith s w
         \<and> boundary (char_at s (length w - 1)) (char_at s (length w))
      then Some (length w) else match_alternatives ws prev s)"

text \<open>\<^verbatim>\<open>int(t)\<close> on a string of decimal digits.\<close>

definition int_of_digits :: "string \<Rightarrow> int" where
  "int_of_digits t = foldl (\<lambda>acc c. 10 * acc + (int (ord c) - 48)) 0 t"

text \<open>\<^verbatim>\<open>text.split()\<close>: the maximal runs of characters that are not whitespace.\<close>

fun split_acc :: "string \<Rightarrow> string \<Rightarrow> string list" where
  "split_acc cur [] = (if cur = [] then [] else [cur])"
| "split_acc cur (c # cs) =
     (if is_space c then (if cur = [] then split_acc [] cs else cur # split_acc [] cs)
      else split_acc (cur @ [c]) cs)"

definition split :: "string \<Rightarrow> string list" where
  "split s = split_acc [] s"

text \<open>\<^verbatim>\<open>s.count(w)\<close>: the occurrences of \<open>w\<close> in \<open>s\<close> that do not overlap, for \<open>w\<close> not empty.\<close>

function count_str :: "string \<Rightarrow> string \<Rightarrow> nat" where
  "count_str [] w = 0"
| "count_str (c # cs) w =
     (if w \<noteq> [] \<and> startswith (c # cs) w then Suc (count_str (drop (length w) (c # cs)) w)
      else count_str cs w)"
  by pat_completeness auto
termination
  by (relation "measure (\<lambda>(s, w). length s)") auto


text \<open>\<^verbatim>\<open>text.split('.')\<close>: the pieces between the dots, empty ones included.\<close>

fun split_on_acc :: "char \<Rightarrow> string \<Rightarrow> string \<Rightarrow> string list" where
  "split_on_acc sep cur [] = [cur]"
| "split_on_acc sep cur (c # cs) =
     (if c = sep then cur # split_on_acc sep [] cs else split_on_acc sep (cur @ [c]) cs)"

definition split_on :: "char \<Rightarrow> string \<Rightarrow> string list" where
  "split_on sep s = split_on_acc sep [] s"

text \<open>\<^verbatim>\<open>np.mean\<close> of a list of numbers: not a number on the empty list.\<close>

definition np_mean :: "real list \<Rightarrow> pyfloat" where
  "np_mean xs = (if xs = [] then NaN else Num (sum_list xs / real (length xs)))"

subsection \<open>RhetoricalAnalyzer\<close>

record emotional_scores =
  positive :: real
  negative :: real
  fear :: real
  anger :: real
  exaggeration :: real

definition emotional_words_positive :: "string list" where
  "emotional_words_positive =
     [''amazing'', ''incredible'', ''fantastic'', ''wonderful'', ''brilliant'', ''outstanding'']"

definition emotional_words_negative :: "string list" where
  "emotional_words_negative =
     [''terrible'', ''horrible'', ''awful'', ''disgusting'', ''shocking'', ''appalling'']"

definition emotional_words_fear :: "string list" where
  "emotional_words_fear = [''fear'', ''terror'', ''panic'', ''dread'', ''anxiety'', ''worry'']"

definition emotional_words_anger :: "string list" where
  "emotional_words_anger = [''fury'', ''rage'', ''outrage'', ''furious'', ''angry'', ''mad'']"

definition emotional_words_exaggeration :: "string list" where
  "emotional_words_exaggeration =
     [''extremely'', ''incredibly'', ''absolutely'', ''completely'', ''totally'', ''utterly'']"

text \<open>\<^verbatim>\<open>sum(text_lower.count(word) for word in words)\<close>.\<close>

definition emotion_count :: "string \<Rightarrow> string list \<Rightarrow> nat" where
  "emotion_count text_lower ws = sum_list (map (count_str text_lower) ws)"

text \<open>
  \<^verbatim>\<open>analyze_emotional_language\<close>: every score is divided by \<^verbatim>\<open>len(text.split())\<close>,
  outside any \<^verbatim>\<open>try\<close>; the first division raises when the text has no word.
\<close>

definition analyze_emotional_language :: "string \<Rightarrow> py_error + emotional_scores" where
  "analyze_emotional_language text =
     (let text_lower = lower text; n = length (split text) in
      if n = 0 then Inl ZeroDivisionError
      else Inr \<lparr>positive = real (emotion_count text_lower emotional_words_positive) / real n,
                negative = real (emotion_count text_lower emotional_words_negative) / real n,
                fear = real (emotion_count text_lower emotional_words_fear) / real n,
                anger = real (emotion_count text_lower emotional_words_anger) / real n,
                exaggeration = real (emotion_count text_lower emotional_words_exaggeration) / real n\<rparr>)"

record loaded_scores =
  conspiracy :: real
  urgency :: real
  authority :: real
  vague_sources :: real
  emotional_triggers :: real

text \<open>
  The numbers of matches that \<^verbatim>\<open>re.findall\<close> returns for the patterns of each category
  of \<^verbatim>\<open>loaded_patterns\<close> on the lowered text, summed over the category's patterns.
\<close>

record loaded_matches =
  m_conspiracy :: nat
  m_urgency :: nat
  m_authority :: nat
  m_vague_sources :: nat
  m_emotional_triggers :: nat

text \<open>\<^verbatim>\<open>detect_loaded_language\<close>: the same division by the number of words.\<close>

definition detect_loaded_language :: "loaded_matches \<Rightarrow> string \<Rightarrow> py_error + loaded_scores" where
  "detect_loaded_language matches text =
     (let n = length (split text) in
      if n = 0 then Inl ZeroDivisionError
      else Inr \<lparr>conspiracy = real (m_conspiracy matches) / real n,
                urgency = real (m_urgency matches) / real n,
                authority = real (m_authority matches) / real n,
                vague_sources = real (m_vague_sources matches) / real n,
                emotional_triggers = real (m_emotional_triggers matches) / real n\<rparr>)"

record readability =
  flesch_reading_ease :: pyfloat
  flesch_kincaid_grade :: pyfloat
  avg_sentence_length :: pyfloat
  avg_word_length :: pyfloat
  complex_word_ratio :: pyfloat

definition readability_defaults :: readability where
  "readability_defaults =
     \<lparr>flesch_reading_ease = Num 50.0, flesch_kincaid_grade = Num 10.0,
      avg_sentence_length = Num 15.0, avg_word_length = Num 5.0, complex_word_ratio = Num 0.3\<rparr>"

text \<open>\<^verbatim>\<open>sent.strip()\<close> is not empty.\<close>

definition strip_nonempty :: "string \<Rightarrow> bool" where
  "strip_nonempty s = (\<not> list_all is_space s)"

text \<open>
  \<^verbatim>\<open>analyze_readability\<close>. \<open>textstat\<close> is what the two textstat functions return on the
  text, \<open>None\<close> when one of them raises. The whole body is under \<^verbatim>\<open>try\<close> with a bare
  \<^verbatim>\<open>except\<close>, so the division by the number of words falls back to the defaults.
\<close>

definition analyze_readability :: "(real \<times> real) option \<Rightarrow> string \<Rightarrow> readability" where
  "analyze_readability textstat text =
     (case textstat of
        None \<Rightarrow> readability_defaults
      | Some (ease, grade) \<Rightarrow>
          let ws = split text in
          if length ws = 0 then readability_defaults
          else \<lparr>flesch_reading_ease = Num ease, flesch_kincaid_grade = Num grade,
                avg_sentence_length =
                  np_mean (map (\<lambda>sent. real (length (split sent)))
                             (filter strip_nonempty (split_on CHR ''.'' text))),
                avg_word_length = np_mean (map (\<lambda>w. real (length w)) ws),
                complex_word_ratio =
                  Num (real (length (filter (\<lambda>w. 6 < length w) ws)) / real (length ws))\<rparr>)"

text \<open>What spaCy returns for the text: the entity labels, and the tokens of each sentence.\<close>

record token =
  pos :: string
  tag :: string
  dep :: string

record spacy_doc =
  ents :: "string list"
  sents :: "token list list"

record linguistic_patterns =
  entity_diversity :: real
  pronoun_ratio :: real
  adjective_ratio :: real
  complex_sentence_ratio :: real
  passive_voice_ratio :: real

definition count_where :: "('a \<Rightarrow> bool) \<Rightarrow> 'a list \<Rightarrow> nat" where
  "count_where P xs = length (filter P xs)"

text \<open>
  \<^verbatim>\<open>detect_linguistic_patterns\<close>: the empty dict when the spaCy model is missing (\<open>None\<close>).
  The ratios over \<^verbatim>\<open>len(pos_tags)\<close> and over the number of sentences are not guarded
  (\<^verbatim>\<open>doc.sents\<close> is a generator, which is always true).
\<close>

definition detect_linguistic_patterns :: "spacy_doc option \<Rightarrow> py_error + linguistic_patterns option" where
  "detect_linguistic_patterns nlp =
     (case nlp of
        None \<Rightarrow> Inr None
      | Some doc \<Rightarrow>
          let entities = ents doc;
              tokens = concat (sents doc);
              complex_sentences =
                count_where (\<lambda>sent. 3 < count_where (\<lambda>t. dep t \<in> set [''nsubj'', ''dobj'', ''pobj'']) sent)
                  (sents doc);
              verbs = count_where (\<lambda>t. pos t = ''VERB'') tokens
          in if length tokens = 0 then Inl ZeroDivisionError
             else if length (sents doc) = 0 then Inl ZeroDivisionError
             else Inr (Some
               \<lparr>entity_diversity =
                  (if entities \<noteq> [] then real (length (remdups entities)) / real (length entities) else 0),
                pronoun_ratio = real (count_where (\<lambda>t. pos t = ''PRON'') tokens) / real (length tokens),
                adjective_ratio = real (count_where (\<lambda>t. pos t = ''ADJ'') tokens) / real (length tokens),
                complex_sentence_ratio = real complex_sentences / real (length (sents doc)),
                passive_voice_ratio =
                  (if 0 < verbs then real (count_where (\<lambda>t. tag t = ''VBN'') tokens) / real verbs else 0)\<rparr>))"

record rhetorical_features =
  emotional_language :: emotional_scores
  loaded_language :: loaded_scores
  readability_metrics :: readability
  linguistic :: "linguistic_patterns option"

text \<open>What the libraries return for the text of the request.\<close>

record text_libraries =
  re_loaded :: loaded_matches
  textstat_scores :: "(real \<times> real) option"
  spacy_nlp :: "spacy_doc option"

text \<open>\<^verbatim>\<open>analyze_text\<close>: the four analyses in the order of the dict literal.\<close>

definition analyze_text :: "text_libraries \<Rightarrow> string \<Rightarrow> py_error + rhetorical_features" where
  "analyze_text lib text =
     (case analyze_emotional_language text of
        Inl e \<Rightarrow> Inl e
      | Inr emo \<Rightarrow>
          (case detect_loaded_language (re_loaded lib) text of
             Inl e \<Rightarrow> Inl e
           | Inr loaded \<Rightarrow>
               (case detect_linguistic_patterns (spacy_nlp lib) of
                  Inl e \<Rightarrow> Inl e
                | Inr ling \<Rightarrow>
                    Inr \<lparr>emotional_language = emo, loaded_language = loaded,
                         readability_metrics = analyze_readability (textstat_scores lib) text,
                         linguistic = ling\<rparr>)))"


subsection \<open>DetectorFusion\<close>

text \<open>
  An entry of \<^verbatim>\<open>baseline_results\<close> for one detector: a dict with the keys that the
  detectors of \<^verbatim>\<open>detection_service.py\<close> write.
\<close>

record detector =
  error :: "string option"
  fake_score :: "real option"
  confidence :: "real option"
  sensitivity :: "real option"
  is_generated :: "bool option"
  high_prob_ratio :: "real option"
  avg_probability :: "real option"
  consistency_score :: "real option"
  is_consistent :: "bool option"

record text_detection =
  roberta :: "detector option"
  detectgpt :: "detector option"
  gltr :: "detector option"
  zero_shot :: "detector option"

record baseline_results =
  text_detection_key :: "text_detection option"
  clip :: "detector option"
  other_keys :: bool

text \<open>
  \<open>clip\<close> is \<^verbatim>\<open>baseline_results['multimodal_detection']['clip']\<close>; \<open>other_keys\<close> says
  that the dict has a key besides these two. A dict is true when it has a key.
\<close>

definition truthy :: "baseline_results \<Rightarrow> bool" where
  "truthy b = (text_detection_key b \<noteq> None \<or> clip b \<noteq> None \<or> other_keys b)"

definition no_text_detection :: text_detection where
  "no_text_detection = \<lparr>roberta = None, detectgpt = None, gltr = None, zero_shot = None\<rparr>"

definition no_detector :: detector where
  "no_detector =
     \<lparr>error = None, fake_score = None, confidence = None, sensitivity = None,
      is_generated = None, high_prob_ratio = None, avg_probability = None,
      consistency_score = None, is_consistent = None\<rparr>"

text \<open>\<^verbatim>\<open>'name' in d and 'error' not in d['name']\<close>.\<close>

definition usable :: "detector option \<Rightarrow> bool" where
  "usable d = (case d of None \<Rightarrow> False | Some e \<Rightarrow> error e = None)"

definition bool_float :: "bool \<Rightarrow> real" where
  "bool_float b = (if b then 1.0 else 0.0)"

text \<open>
  \<^verbatim>\<open>extract_fusion_features\<close>: two numbers for each detector that is present without an
  error, then the 5 + 5 + 3 + 5 rhetorical features, with the defaults of \<^verbatim>\<open>.get\<close>
  (\<open>None\<close> is the empty dict \<^verbatim>\<open>rhetorical_features = {}\<close>).
\<close>

definition extract_fusion_features :: "baseline_results \<Rightarrow> rhetorical_features option \<Rightarrow> pyfloat list" where
  "extract_fusion_features b rf =
     (let td = dget (text_detection_key b) no_text_detection;
          e = (\<lambda>d. dget d no_detector)
      in (if usable (roberta td)
          then [Num (dget (fake_score (e (roberta td))) 0.5), Num (dget (confidence (e (roberta td))) 0.0)]
          else [])
       @ (if usable (detectgpt td)
          then [Num (dget (sensitivity (e (detectgpt td))) 0.0),
                Num (if dget (is_generated (e (detectgpt td))) False then 1.0 else 0.0)]
          else [])
       @ (if usable (gltr td)
          then [Num (dget (high_prob_ratio (e (gltr td))) 0.0), Num (dget (avg_probability (e (gltr td))) 0.0)]
          else [])
       @ (if usable (zero_shot td)
          then [Num (dget (fake_score (e (zero_shot td))) 0.5), Num (dget (confidence (e (zero_shot td))) 0.0)]
          else [])
       @ (if usable (clip b)
          then [Num (dget (consistency_score (e (clip b))) 0.5),
                Num (bool_float (dget (is_consistent (e (clip b))) True))]
          else [])
       @ (case rf of
            None \<Rightarrow> [Num 0.0, Num 0.0, Num 0.0, Num 0.0, Num 0.0]
          | Some r \<Rightarrow>
              [Num (positive (emotional_language r)), Num (negative (emotional_language r)),
               Num (fear (emotional_language r)), Num (anger (emotional_language r)),
               Num (exaggeration (emotional_language r))])
       @ (case rf of
            None \<Rightarrow> [Num 0.0, Num 0.0, Num 0.0, Num 0.0, Num 0.0]
          | Some r \<Rightarrow>
              [Num (conspiracy (loaded_language r)), Num (urgency (loaded_language r)),
               Num (authority (loaded_language r)), Num (vague_sources (loaded_language r)),
               Num (emotional_triggers (loaded_language r))])
       @ (case rf of
            None \<Rightarrow> [Num 50.0, Num 15.0, Num 0.3]
          | Some r \<Rightarrow>
              [flesch_reading_ease (readability_metrics r), avg_sentence_length (readability_metrics r),
               complex_word_ratio (readability_metrics r)])
       @ (case (case rf of None \<Rightarrow> None | Some r \<Rightarrow> linguistic r) of
            None \<Rightarrow> [Num 0.0, Num 0.0, Num 0.0, Num 0.0, Num 0.0]
          | Some l \<Rightarrow>
              [Num (entity_diversity l), Num (pronoun_ratio l), Num (adjective_ratio l),
               Num (complex_sentence_ratio l), Num (passive_voice_ratio l)]))"

text \<open>The comparisons of a float with a constant: all false on \<open>NaN\<close>.\<close>

definition pf_gt :: "pyfloat \<Rightarrow> real \<Rightarrow> bool" where
  "pf_gt v c = (case v of NaN \<Rightarrow> False | Num x \<Rightarrow> c < x)"

text \<open>The normalization loop of \<^verbatim>\<open>_simple_weighted_fusion\<close>, for one value.\<close>

definition normalize_feature :: "pyfloat \<Rightarrow> real" where
  "normalize_feature v =
     (case v of
        NaN \<Rightarrow> 0.5
      | Num x \<Rightarrow>
          let val = (if 1 < x \<and> x < 10 then min (x / 10.0) 1.0 else x)
          in if \<not> (0 \<le> val \<and> val \<le> 1) then 0.5 else val)"

definition feature_weights_raw :: "real list" where
  "feature_weights_raw = [0.05, 0.04, 0.80, 0.05, 0.02, 0.02, 0.02, 0.02, 0.02, 0.02, 0.02, 0.02]"

text \<open>\<^verbatim>\<open>feature_weights / feature_weights.sum()\<close>.\<close>

definition feature_weights :: "real list" where
  "feature_weights = map (\<lambda>w. w / sum_list feature_weights_raw) feature_weights_raw"

text \<open>
  \<^verbatim>\<open>np.sum(np.array(normalized_features[:12]) * feature_weights)\<close>: the product of two
  arrays needs equal lengths, but for an array of one element, which is broadcast;
  otherwise numpy raises \<^verbatim>\<open>ValueError\<close>, which \<^verbatim>\<open>except ImportError\<close> does not catch.
\<close>

definition weighted_sum :: "real list \<Rightarrow> py_error + real" where
  "weighted_sum normalized_features =
     (let xs = take (length feature_weights) normalized_features in
      if length xs = length feature_weights
      then Inr (sum_list (map (\<lambda>(x, w). x * w) (zip xs feature_weights)))
      else if length xs = 1 then Inr (sum_list (map (\<lambda>w. hd xs * w) feature_weights))
      else Inl ValueError)"

text \<open>The tiers of the bonus on the raw sensitivity of the generative detector.\<close>

definition ai_bonus :: "pyfloat \<Rightarrow> real" where
  "ai_bonus detectgpt_sensitivity =
     (if pf_gt detectgpt_sensitivity 5.0 then 0.20
      else if pf_gt detectgpt_sensitivity 4.2 then 0.12
      else if pf_gt detectgpt_sensitivity 3.8 then 0.08
      else if pf_gt detectgpt_sensitivity 3.5 then 0.04
      else 0.0)"

definition ai_detected :: "pyfloat \<Rightarrow> bool" where
  "ai_detected detectgpt_sensitivity =
     (if pf_gt detectgpt_sensitivity 5.0 then True
      else if pf_gt detectgpt_sensitivity 4.2 then True
      else if pf_gt detectgpt_sensitivity 3.8 then False
      else if pf_gt detectgpt_sensitivity 3.5 then False
      else False)"

text \<open>
  The value that \<^verbatim>\<open>_simple_weighted_fusion\<close> gives to \<^verbatim>\<open>detectgpt_sensitivity\<close>: read
  from the detector's entry when \<^verbatim>\<open>baseline_results\<close> is true and the entry has no
  error, the third feature when \<^verbatim>\<open>baseline_results\<close> is false, and \<open>0.0\<close> otherwise.
\<close>

definition detectgpt_sensitivity_of :: "pyfloat list \<Rightarrow> baseline_results \<Rightarrow> pyfloat" where
  "detectgpt_sensitivity_of features_flat b =
     (if truthy b then
        (let detectgpt_data = dget (detectgpt (dget (text_detection_key b) no_text_detection)) no_detector
         in if error detectgpt_data = None then Num (dget (sensitivity detectgpt_data) 0.0) else Num 0.0)
      else (if 2 < length features_flat then features_flat ! 2 else Num 0.0))"

text \<open>
  The dict \<^verbatim>\<open>fusion_result\<close>. The keys \<^verbatim>\<open>'fake_probability'\<close>, \<^verbatim>\<open>'confidence'\<close> and
  \<^verbatim>\<open>'method'\<close> are written on every path, the others by some paths only.
\<close>

record fusion_result =
  fr_prediction :: "string option"
  fr_fake_probability :: real
  fr_confidence :: real
  fr_method :: string
  fr_ai_generated_detected :: "bool option"
  fr_num_features_used :: "nat option"

text \<open>\<^verbatim>\<open>_simple_weighted_fusion\<close>.\<close>

definition simple_weighted_fusion :: "pyfloat list \<Rightarrow> baseline_results \<Rightarrow> py_error + fusion_result" where
  "simple_weighted_fusion features_flat b =
     (let detectgpt_sensitivity = detectgpt_sensitivity_of features_flat b;
          normalized_features = map normalize_feature features_flat
      in case weighted_sum normalized_features of
           Inl e \<Rightarrow> Inl e
         | Inr weighted_score \<Rightarrow>
             let bonus = ai_bonus detectgpt_sensitivity;
                 weighted_score1 = (if 0 < bonus then min 1.0 (weighted_score + bonus) else weighted_score);
                 weighted_score2 = max 0.0 (min 1.0 weighted_score1)
             in Inr \<lparr>fr_prediction = Some (if 0.5 < weighted_score2 then ''fake'' else ''real''),
                     fr_fake_probability = weighted_score2,
                     fr_confidence = \<bar>weighted_score2 - 0.5\<bar> * 2,
                     fr_method = ''random_forest_fusion'',
                     fr_ai_generated_detected = Some (ai_detected detectgpt_sensitivity),
                     fr_num_features_used = Some (length normalized_features)\<rparr>)"

text \<open>
  What a trained classifier returns for the features: its class and the list of class
  probabilities of \<^verbatim>\<open>predict_proba\<close>.
\<close>

record trained_output =
  predicted :: string
  probability :: "real list"

text \<open>
  \<^verbatim>\<open>predict_fusion\<close>: the heuristic when \<^verbatim>\<open>fusion_model is None\<close>; \<^verbatim>\<open>max\<close> of an empty
  sequence raises \<^verbatim>\<open>ValueError\<close>.
\<close>

definition predict_fusion :: "trained_output option \<Rightarrow> pyfloat list \<Rightarrow> baseline_results \<Rightarrow> py_error + fusion_result" where
  "predict_fusion fusion_model features b =
     (case fusion_model of
        None \<Rightarrow> simple_weighted_fusion features b
      | Some out \<Rightarrow>
          if probability out = [] then Inl ValueError
          else Inr \<lparr>fr_prediction = Some (predicted out),
                    fr_fake_probability = (if 1 < length (probability out) then probability out ! 1 else 0.5),
                    fr_confidence = Max (set (probability out)),
                    fr_method = ''trained_fusion'',
                    fr_ai_generated_detected = None,
                    fr_num_features_used = None\<rparr>)"


subsection \<open>CrossModalChecker\<close>

definition months :: "string list" where
  "months = [''january'', ''february'', ''march'', ''april'', ''may'', ''june'', ''july'',
             ''august'', ''september'', ''october'', ''november'', ''december'']"

definition relative_times :: "string list" where
  "relative_times = [''today'', ''yesterday'', ''tomorrow'', ''now'', ''recently'', ''lately'']"

definition modern_keywords :: "string list" where
  "modern_keywords = [''tower'', ''building'', ''constructed'', ''built'', ''completed'',
                      ''technology'', ''internet'', ''computer'', ''phone'', ''car'', ''airplane'']"

text \<open>The matches of the three \<^verbatim>\<open>time_patterns\<close> on the lowered text, pattern after pattern.\<close>

definition text_times :: "string \<Rightarrow> string list" where
  "text_times text =
     findall match_four_digits None (lower text)
     @ findall (match_alternatives months) None (lower text)
     @ findall (match_alternatives relative_times) None (lower text)"

text \<open>\<^verbatim>\<open>[int(t) for t in text_times if t.isdigit() and len(t) == 4]\<close>.\<close>

definition year_matches :: "string \<Rightarrow> int list" where
  "year_matches text =
     map int_of_digits
       (filter (\<lambda>t. t \<noteq> [] \<and> list_all is_digit t \<and> length t = 4) (text_times text))"

definition current_year :: int where
  "current_year = 2025"

datatype temporal_issue =
    future_years "int list"
  | anachronism_detected "int list"
  | medieval_years "int list"
  | historical_mismatch "int list"
  | historical_reference "int list"

record temporal_consistency =
  temporal_consistency_score :: real
  extracted_times :: "string list"
  temporal_issues :: "temporal_issue list"
  is_temporally_consistent :: bool

definition consistency_threshold :: real where
  "consistency_threshold = 0.3"

text \<open>\<^verbatim>\<open>check_temporal_consistency\<close>.\<close>

definition check_temporal_consistency :: "string \<Rightarrow> temporal_consistency" where
  "check_temporal_consistency text =
     (let ys = year_matches text;
          future = filter (\<lambda>y. current_year + 1 < y) ys;
          very_old_years = filter (\<lambda>y. y < 1500) ys;
          old_years = filter (\<lambda>y. 1500 \<le> y \<and> y < 1800) ys;
          recent_past = filter (\<lambda>y. 1800 \<le> y \<and> y < current_year - 50) ys;
          has_modern_context = list_ex (\<lambda>keyword. contains (lower text) keyword) modern_keywords;
          score0 = (1.0::real);
          score1 = (if ys \<noteq> [] \<and> future \<noteq> [] then score0 - 0.4 else score0);
          issues1 = (if ys \<noteq> [] \<and> future \<noteq> [] then [future_years future] else []);
          score2 =
            (if ys = [] then score1
             else if very_old_years \<noteq> [] \<and> has_modern_context then score1 - 0.9
             else if very_old_years \<noteq> [] then score1 - 0.5
             else if old_years \<noteq> [] \<and> has_modern_context then score1 - 0.5
             else if recent_past \<noteq> [] then score1 - 0.1
             else score1);
          issues2 =
            (if ys = [] then issues1
             else if very_old_years \<noteq> [] \<and> has_modern_context
               then issues1 @ [anachronism_detected very_old_years]
             else if very_old_years \<noteq> [] then issues1 @ [medieval_years very_old_years]
             else if old_years \<noteq> [] \<and> has_modern_context then issues1 @ [historical_mismatch old_years]
             else if recent_past \<noteq> [] then issues1 @ [historical_reference recent_past]
             else issues1)
      in \<lparr>temporal_consistency_score = max 0.0 score2,
          extracted_times = text_times text,
          temporal_issues = issues2,
          is_temporally_consistent = (consistency_threshold < score2)\<rparr>)"

text \<open>
  What \<^verbatim>\<open>re\<close> returns on the text for the patterns of the spatial and the logical
  check: the locations found, and whether each contradiction pattern matches.
\<close>

record consistency_matches =
  locations :: "string list"
  negation_contradiction :: bool
  temporal_contradiction :: bool
  trend_contradiction :: bool

text \<open>The score of \<^verbatim>\<open>check_spatial_consistency\<close>.\<close>

definition spatial_consistency_score :: "consistency_matches \<Rightarrow> real" where
  "spatial_consistency_score cm = (if 3 < card (set (locations cm)) then 1.0 - 0.2 else 1.0)"

definition detected_contradictions :: "consistency_matches \<Rightarrow> string list" where
  "detected_contradictions cm =
     (if negation_contradiction cm then [''negation_contradiction''] else [])
     @ (if temporal_contradiction cm then [''temporal_contradiction''] else [])
     @ (if trend_contradiction cm then [''trend_contradiction''] else [])"

text \<open>The score of \<^verbatim>\<open>check_logical_consistency\<close>.\<close>

definition logical_consistency_score :: "consistency_matches \<Rightarrow> real" where
  "logical_consistency_score cm = max 0.0 (1.0 - real (length (detected_contradictions cm)) * 0.3)"

text \<open>
  The dict \<^verbatim>\<open>consistency_check\<close>: the two scores that the calibrator reads, and the rest
  of what \<^verbatim>\<open>comprehensive_consistency_check\<close> returns (\<open>None\<close> in the dict that stands for
  a skipped check).
\<close>

record consistency_details =
  temporal :: temporal_consistency
  spatial_score :: real
  logical_score :: real
  contradictions :: "string list"
  is_globally_consistent :: bool

record consistency_check =
  overall_consistency_score :: real
  cc_temporal_consistency_score :: real
  cc_details :: "consistency_details option"

definition comprehensive_consistency_check :: "consistency_matches \<Rightarrow> string \<Rightarrow> consistency_check" where
  "comprehensive_consistency_check cm text =
     (let temporal_res = check_temporal_consistency text;
          overall =
            temporal_consistency_score temporal_res * 0.3
            + spatial_consistency_score cm * 0.3
            + logical_consistency_score cm * 0.4
      in \<lparr>overall_consistency_score = overall,
          cc_temporal_consistency_score = temporal_consistency_score temporal_res,
          cc_details = Some \<lparr>temporal = temporal_res,
                             spatial_score = spatial_consistency_score cm,
                             logical_score = logical_consistency_score cm,
                             contradictions = detected_contradictions cm,
                             is_globally_consistent = (consistency_threshold < overall)\<rparr>\<rparr>)"

text \<open>The dict that \<^verbatim>\<open>improved_detection\<close> uses when the check is switched off.\<close>

definition consistency_skipped :: consistency_check where
  "consistency_skipped =
     \<lparr>overall_consistency_score = 1.0, cc_temporal_consistency_score = 1.0, cc_details = None\<rparr>"


subsection \<open>The result of a verification\<close>

text \<open>
  What \<^verbatim>\<open>TavilyVerifier.comprehensive_verification\<close> returns: both of its
  \<^verbatim>\<open>return\<close> statements write the six keys that \<^verbatim>\<open>improved_detection\<close> reads, so
  the defaults of \<^verbatim>\<open>verification_result.get\<close> are never used.
\<close>

record verification_result =
  verification_score :: real
  entity_coverage :: real
  vr_entities_found :: int
  vr_entities_checked :: int
  vr_claims_verified :: int
  vr_claims_checked :: int

subsection \<open>TavilyVerifier (utils/tavily\_verifier.py)\<close>

text \<open>
  How one call of \<^verbatim>\<open>search_tavily\<close> ends when the client exists: the client answers with
  an answer text and a number of results, or an exception is raised inside the
  \<^verbatim>\<open>try\<close> block of the search. That block has an \<^verbatim>\<open>except Exception\<close>, which catches
  what the client raises and also a \<^verbatim>\<open>TimeoutError\<close> that an alarm raises while the
  search runs; the search then returns its empty result.
\<close>

datatype search_outcome = Response string nat | SearchFailed

text \<open>\<^verbatim>\<open>search_tavily\<close>: the answer and the number of results of the dict it returns.\<close>

definition search_tavily :: "search_outcome \<Rightarrow> string \<times> nat" where
  "search_tavily outcome = (case outcome of Response a n \<Rightarrow> (a, n) | SearchFailed \<Rightarrow> ([], 0))"

text \<open>\<^verbatim>\<open>verify_entity\<close>: the keys \<^verbatim>\<open>'exists'\<close> and \<^verbatim>\<open>'confidence'\<close> of its result.\<close>

definition verify_entity :: "search_outcome \<Rightarrow> bool \<times> real" where
  "verify_entity outcome =
     (let n = snd (search_tavily outcome)
      in if n = 0 then (False, 0.0) else (True, min (real n / 3.0) 1.0))"

text \<open>\<^verbatim>\<open>verify_claim\<close>: the keys \<^verbatim>\<open>'verified'\<close> and \<^verbatim>\<open>'verdict'\<close> of its result.\<close>

definition verify_claim :: "search_outcome \<Rightarrow> bool \<times> string" where
  "verify_claim outcome =
     (let a = fst (search_tavily outcome);
          n = snd (search_tavily outcome);
          answer_lower = lower a;
          verdict =
            (if a \<noteq> [] then
               (if list_ex (contains answer_lower) [''true'', ''confirmed'', ''verified'', ''accurate'']
                then ''true''
                else if list_ex (contains answer_lower) [''false'', ''fake'', ''misleading'', ''unverified'']
                then ''false''
                else ''unknown'')
             else ''unknown'')
      in (0 < n, verdict))"

text \<open>
  \<^verbatim>\<open>comprehensive_verification\<close>, from the outcomes of the searches for the entities and
  for the claims it is given, in their order. \<open>client\<close> says that the client exists
  (\<^verbatim>\<open>improved_detection\<close> keeps a verifier only then).
\<close>

definition comprehensive_verification ::
  "bool \<Rightarrow> search_outcome list \<Rightarrow> search_outcome list \<Rightarrow> verification_result" where
  "comprehensive_verification client entity_searches claim_searches =
     (if \<not> client then
        \<lparr>verification_score = 0.5, entity_coverage = 0.0, vr_entities_found = 0,
         vr_entities_checked = 0, vr_claims_verified = 0, vr_claims_checked = 0\<rparr>
      else
        (let entity_results = map verify_entity (take 5 entity_searches);
             found = length (filter (\<lambda>res. fst res \<and> 0.5 < snd res) entity_results);
             claim_results = map verify_claim (take 3 claim_searches);
             verified = length (filter (\<lambda>res. fst res \<and> snd res = ''true'') claim_results);
             n_entities = length entity_results;
             n_claims = length claim_results;
             coverage = (if 0 < n_entities then real found / real n_entities else 0.0);
             claim_accuracy = (if 0 < n_claims then real verified / real n_claims else 0.5)
         in \<lparr>verification_score = coverage * 0.4 + claim_accuracy * 0.6,
             entity_coverage = coverage,
             vr_entities_found = int found,
             vr_entities_checked = int n_entities,
             vr_claims_verified = int verified,
             vr_claims_checked = int n_claims\<rparr>))"

subsection \<open>ImprovedDetection: the verification step\<close>

text \<open>
  The dict \<^verbatim>\<open>tavily_verification\<close>, with the keys that \<^verbatim>\<open>improved_detection\<close> writes
  (the lists \<^verbatim>\<open>entity_results\<close> and \<^verbatim>\<open>claim_results\<close>, which no decision reads, are left
  out). No path writes a key \<^verbatim>\<open>'verification_summary'\<close> or \<^verbatim>\<open>'total_claims'\<close>: a
  \<^verbatim>\<open>get\<close> of these returns its default. The empty dict has no key.
\<close>

record verification_report =
  overall_score :: "real option"
  tavily_coverage :: "real option"
  wikipedia_coverage :: "real option"
  entities_found :: "int option"
  entities_checked :: "int option"
  claims_verified :: "int option"
  claims_checked :: "int option"
  provider :: "string option"
  report_error :: "string option"

definition empty_report :: verification_report where
  "empty_report =
     \<lparr>overall_score = None, tavily_coverage = None, wikipedia_coverage = None,
      entities_found = None, entities_checked = None, claims_verified = None,
      claims_checked = None, provider = None, report_error = None\<rparr>"

text \<open>The report built from a verification result (the branch \<^verbatim>\<open>if verification_result\<close>).\<close>

definition report_of_result :: "verification_result \<Rightarrow> verification_report" where
  "report_of_result vr =
     \<lparr>overall_score = Some (verification_score vr),
      tavily_coverage = Some (entity_coverage vr),
      wikipedia_coverage = Some (entity_coverage vr),
      entities_found = Some (vr_entities_found vr),
      entities_checked = Some (vr_entities_checked vr),
      claims_verified = Some (vr_claims_verified vr),
      claims_checked = Some (vr_claims_checked vr),
      provider = Some ''tavily'',
      report_error = None\<rparr>"

text \<open>The report built from \<^verbatim>\<open>quick_score\<close> alone (the \<^verbatim>\<open>else\<close> branch).\<close>

definition report_of_quick_score :: "real \<Rightarrow> verification_report" where
  "report_of_quick_score quick_score =
     \<lparr>overall_score = Some quick_score,
      tavily_coverage = Some (if 0.5 < quick_score then 1.0 else 0.5),
      wikipedia_coverage = Some (if 0.5 < quick_score then 1.0 else 0.5),
      entities_found = Some 1,
      entities_checked = Some 1,
      claims_verified = Some (if 0.7 < quick_score then 1 else 0),
      claims_checked = Some 1,
      provider = Some ''tavily'',
      report_error = None\<rparr>"

text \<open>The report of the two outer \<^verbatim>\<open>except\<close> clauses.\<close>

definition report_of_error :: "string \<Rightarrow> verification_report" where
  "report_of_error msg =
     \<lparr>overall_score = Some 0.0, tavily_coverage = Some 0.0, wikipedia_coverage = Some 0.0,
      entities_found = None, entities_checked = None, claims_verified = None,
      claims_checked = None, provider = Some ''tavily'', report_error = Some msg\<rparr>"

datatype platform = Windows | Posix

text \<open>
  How the call of the verifier (spaCy, nltk and \<^verbatim>\<open>comprehensive_verification\<close>) ends.
  \<^item> \<open>Returned\<close>: it returns a result within the deadline of 10 seconds.
  \<^item> \<open>TimedOut\<close>: the deadline passes while the call runs outside the \<^verbatim>\<open>try\<close> block of
    \<^verbatim>\<open>search_tavily\<close> (in spaCy, in nltk, in the verifier's own code).
  \<^item> \<open>TimedOutInSearch\<close>: the deadline passes while the call is inside the \<^verbatim>\<open>try\<close> block
    of \<^verbatim>\<open>search_tavily\<close>; the result is the one that the call returns if it runs on.
  \<^item> \<open>Raised\<close>: an exception other than a timeout leaves the call.
\<close>

datatype call_outcome =
    Returned verification_result
  | TimedOut
  | TimedOutInSearch verification_result
  | Raised string

text \<open>
  The verification step of \<^verbatim>\<open>improved_detection\<close>, up to the report. On Windows the
  call runs in a thread that catches every exception and is joined for 10 seconds; an
  exception and a thread still alive after the join both leave \<^verbatim>\<open>quick_score = 0.5\<close>
  and no result. Elsewhere \<^verbatim>\<open>signal.alarm(10)\<close> raises \<^verbatim>\<open>TimeoutError\<close> once, at the point
  where the call is. Outside \<^verbatim>\<open>search_tavily\<close> it reaches the inner
  \<^verbatim>\<open>except TimeoutError\<close>, which leaves \<^verbatim>\<open>quick_score = 0.5\<close> and no result. Inside
  \<^verbatim>\<open>search_tavily\<close> it is caught there; the search returns its empty result, no alarm
  is left, and the call runs on to its result, from which the report is built as from
  any other. Any other exception leaves the inner \<^verbatim>\<open>try\<close> for the outer handlers.
\<close>

definition acquire_verification :: "platform \<Rightarrow> call_outcome \<Rightarrow> py_error + verification_report" where
  "acquire_verification pf outcome =
     (case pf of
        Windows \<Rightarrow>
          (case outcome of
             Returned vr \<Rightarrow> Inr (report_of_result vr)
           | TimedOut \<Rightarrow> Inr (report_of_quick_score 0.5)
           | TimedOutInSearch vr \<Rightarrow> Inr (report_of_quick_score 0.5)
           | Raised msg \<Rightarrow> Inr (report_of_quick_score 0.5))
      | Posix \<Rightarrow>
          (case outcome of
             Returned vr \<Rightarrow> Inr (report_of_result vr)
           | TimedOut \<Rightarrow> Inr (report_of_quick_score 0.5)
           | TimedOutInSearch vr \<Rightarrow> Inr (report_of_result vr)
           | Raised msg \<Rightarrow> Inl (Exception msg)))"

text \<open>\<^verbatim>\<open>str(e)\<close>.\<close>

definition error_message :: "py_error \<Rightarrow> string" where
  "error_message e =
     (case e of
        ZeroDivisionError \<Rightarrow> ''division by zero''
      | ValueError \<Rightarrow> ''operands could not be broadcast together''
      | TimeoutError \<Rightarrow> ''Fact verification timeout''
      | Exception msg \<Rightarrow> msg)"

text \<open>The outer handlers: \<^verbatim>\<open>except TimeoutError\<close>, then \<^verbatim>\<open>except Exception as e\<close>.\<close>

definition handle_verification_error :: "py_error \<Rightarrow> verification_report" where
  "handle_verification_error e =
     (case e of
        TimeoutError \<Rightarrow> report_of_error ''timeout''
      | _ \<Rightarrow> report_of_error (error_message e))"

subsection \<open>ImprovedDetection: the fast path\<close>

text \<open>The two ratios of the gate; \<^verbatim>\<open>verification_summary\<close> is the empty dict.\<close>

definition gate_claims_ratio :: "verification_report \<Rightarrow> real" where
  "gate_claims_ratio r =
     (let verified = dget (claims_verified r) 0;
          total_claims = dget (claims_checked r) 1
      in if 0 < total_claims then real_of_int verified / real_of_int total_claims else 0.0)"

definition gate_entities_ratio :: "verification_report \<Rightarrow> real" where
  "gate_entities_ratio r =
     (let found = dget (entities_found r) 0;
          total_entities = dget (entities_checked r) 1
      in if 0 < total_entities then real_of_int found / real_of_int total_entities else 0.0)"

text \<open>The condition of the fast path.\<close>

definition fast_path_fires :: "verification_report \<Rightarrow> bool" where
  "fast_path_fires r =
     (let tavily_score = dget (overall_score r) 0.0;
          tavily_cov = dget (tavily_coverage r) 0.0;
          total_claims = dget (claims_checked r) 1;
          total_entities = dget (entities_checked r) 1
      in 0.75 \<le> tavily_score \<and> 0.65 \<le> tavily_cov
         \<and> 0.75 \<le> gate_claims_ratio r \<and> 0.70 \<le> gate_entities_ratio r
         \<and> 2 \<le> total_claims \<and> 2 \<le> total_entities)"

definition fast_fake_prob :: "real \<Rightarrow> real" where
  "fast_fake_prob tavily_score = max 0.0 (0.15 - (tavily_score - 0.75) * 0.3)"

definition fast_confidence :: "real \<Rightarrow> real" where
  "fast_confidence tavily_score =
     (let distance_from_center = \<bar>fast_fake_prob tavily_score - 0.5\<bar>;
          c0 = (distance_from_center * 2) powr 1.5;
          c1 = (if 0.75 < tavily_score then min 1.0 (c0 + 0.15) else c0)
      in max 0.0 (min 1.0 c1))"

text \<open>
  The dict \<^verbatim>\<open>explanation\<close>; each \<^verbatim>\<open>wikipedia_\<close> key mirrors the \<^verbatim>\<open>tavily_\<close> key of the
  same value and is left out, as are the details that echo the report.
\<close>

record explanation =
  base_fusion_score :: real
  consistency_adjustment :: real
  rhetorical_adjustment :: real
  tavily_adjustment :: real
  tavily_contradiction_penalty :: "real option"
  tavily_boost :: real
  final_score :: real
  ex_confidence :: real
  key_factors :: "string list"

record final_prediction =
  prediction :: string
  fake_probability :: real
  fp_confidence :: real
  fp_explanation :: explanation
  threshold_used :: "real option"

text \<open>
  The dict that \<^verbatim>\<open>improved_detection\<close> returns, without the baseline results that it
  echoes and without the detailed report, which is presentation.
\<close>

record detection_result =
  rhetorical_analysis :: "rhetorical_features option"
  consistency_result :: "consistency_check option"
  fusion :: fusion_result
  tavily_verification :: verification_report
  fast_path :: bool
  final :: final_prediction

text \<open>The result that the fast path returns.\<close>

definition fast_result :: "verification_report \<Rightarrow> detection_result" where
  "fast_result r =
     (let tavily_score = dget (overall_score r) 0.0;
          p = fast_fake_prob tavily_score;
          c = fast_confidence tavily_score
      in \<lparr>rhetorical_analysis = None,
          consistency_result = None,
          fusion = \<lparr>fr_prediction = None, fr_fake_probability = p, fr_confidence = c,
                    fr_method = ''tavily_fast_path'', fr_ai_generated_detected = None,
                    fr_num_features_used = None\<rparr>,
          tavily_verification = r,
          fast_path = True,
          final = \<lparr>prediction = ''real'', fake_probability = p, fp_confidence = c,
                   fp_explanation =
                     \<lparr>base_fusion_score = p, consistency_adjustment = 0.0,
                      rhetorical_adjustment = 0.0, tavily_adjustment = 0.0,
                      tavily_contradiction_penalty = None,
                      tavily_boost = - (0.35 + (tavily_score - 0.75) * 0.4),
                      final_score = p, ex_confidence = c,
                      key_factors = [''high_tavily_verification'', ''tavily_fast_path'']\<rparr>,
                   threshold_used = None\<rparr>\<rparr>)"


subsection \<open>ImprovedDetection: the final calibrator\<close>

text \<open>\<^verbatim>\<open>consistency_adjustment\<close>, with the two temporal penalties.\<close>

definition consistency_adjustment_of :: "real \<Rightarrow> real \<Rightarrow> real" where
  "consistency_adjustment_of cons_score temporal_score =
     (let a0 = (1.0 - cons_score) * 0.25;
          a1 = (if temporal_score < 0.5 then a0 + (1.0 - temporal_score) * 0.25 else a0)
      in if temporal_score < 0.2 then a1 + 0.3 else a1)"

text \<open>\<^verbatim>\<open>sum(loaded_language.values()) * 0.1\<close>; the dict is empty when there are no features.\<close>

definition rhetorical_adjustment_of :: "rhetorical_features option \<Rightarrow> real" where
  "rhetorical_adjustment_of rf =
     (case rf of
        None \<Rightarrow> 0 * 0.1
      | Some r \<Rightarrow>
          (conspiracy (loaded_language r) + urgency (loaded_language r) + authority (loaded_language r)
           + vague_sources (loaded_language r) + emotional_triggers (loaded_language r)) * 0.1)"

text \<open>\<^verbatim>\<open>tavily_verification and 'overall_score' in tavily_verification\<close>.\<close>

definition has_score :: "verification_report \<Rightarrow> bool" where
  "has_score r = (overall_score r \<noteq> None)"

definition calib_score :: "verification_report \<Rightarrow> real" where
  "calib_score r = dget (overall_score r) 0.0"

definition calib_coverage :: "verification_report \<Rightarrow> real" where
  "calib_coverage r = dget (tavily_coverage r) (dget (wikipedia_coverage r) 0.0)"

definition tavily_adjustment_of :: "verification_report \<Rightarrow> real \<Rightarrow> real" where
  "tavily_adjustment_of r tavily_weight =
     (if has_score r
      then ((1.0 - calib_score r) * 0.20 + (1.0 - calib_coverage r) * 0.15) * tavily_weight
      else 0.0)"

text \<open>
  The ratio that the calibrator computes: \<^verbatim>\<open>total_claims\<close> is read from the key
  \<^verbatim>\<open>'total_claims'\<close>, which the report does not have, so it is the default 1.
\<close>

definition calib_claims_ratio :: "verification_report \<Rightarrow> real" where
  "calib_claims_ratio r =
     (let verified = dget (claims_verified r) 0;
          total_claims = (1::int)
      in if 0 < total_claims then real_of_int verified / real_of_int total_claims else 0)"

text \<open>\<^verbatim>\<open>re.findall(r'\b(18|19|20)\d{2}\b', text.lower())\<close>, with the group of each match.\<close>

definition years_in_text :: "string \<Rightarrow> string list" where
  "years_in_text text = map (take 2) (findall match_modern_year None (lower text))"

text \<open>
  \<^verbatim>\<open>contradiction_penalty\<close>: the penalty of a low verification, and under the guard of a
  high coverage and score the penalty of a low claims ratio and the penalty of the years.
\<close>

definition contradiction_penalty_of :: "verification_report \<Rightarrow> real \<Rightarrow> string \<Rightarrow> real" where
  "contradiction_penalty_of r tavily_weight text =
     (if has_score r then
        (let p0 = (0.0::real);
             p1 = (if calib_score r < 0.5 \<or> calib_coverage r < 0.6 then 0.15 * tavily_weight else p0)
         in if 0.8 \<le> calib_coverage r \<and> 0.7 \<le> calib_score r then
              (let claims_ratio = calib_claims_ratio r;
                   p2 = (if claims_ratio < 0.7 then p1 + 0.15 * tavily_weight else p1)
               in if years_in_text text \<noteq> [] \<and> claims_ratio < 0.9 then p2 + 0.15 * tavily_weight else p2)
            else p1)
      else 0.0)"

definition tavily_boost_of :: "verification_report \<Rightarrow> real" where
  "tavily_boost_of r =
     (if has_score r then
        (if 0.5 \<le> calib_score r then - 0.30
         else if 0.75 \<le> calib_coverage r \<and> 0.4 \<le> calib_score r then - 0.15
         else 0.0)
      else 0.0)"

text \<open>The verdict bands at the end of \<^verbatim>\<open>_generate_final_prediction\<close>.\<close>

definition prediction_label :: "real \<Rightarrow> string" where
  "prediction_label final_fake_prob =
     (let misleading_lower = 0.4; misleading_upper = 0.6
      in if misleading_upper \<le> final_fake_prob then ''fake''
         else if final_fake_prob \<le> misleading_lower then ''real''
         else ''misleading'')"

text \<open>
  \<^verbatim>\<open>final_confidence\<close>, from the final probability and the sum of the absolute
  adjustments.
\<close>

definition final_confidence_of :: "real \<Rightarrow> real \<Rightarrow> real" where
  "final_confidence_of final_fake_prob total_adjustment =
     (let distance_from_center = \<bar>final_fake_prob - 0.5\<bar>;
          c0 = (distance_from_center * 2) powr 1.5;
          c1 = (if 0.1 < total_adjustment then min 1.0 (c0 + 0.1) else c0)
      in max 0.0 (min 1.0 c1))"

text \<open>The tags of \<^verbatim>\<open>explanation['key_factors']\<close>.\<close>

definition key_factors_of :: "real \<Rightarrow> real \<Rightarrow> real \<Rightarrow> real \<Rightarrow> real \<Rightarrow> real \<Rightarrow> real \<Rightarrow> string list" where
  "key_factors_of base_fake_prob temporal_score cons_adj rhet_adj tav_adj penalty boost =
     (if 0.1 < cons_adj then [''inconsistent_information''] else [])
     @ (if temporal_score < 0.5 then [''severe_temporal_error''] else [])
     @ (if 0.05 < rhet_adj then [''loaded_language''] else [])
     @ (if 0.0 < penalty then [''extremely_low_tavily_verification'']
        else if 0.1 < tav_adj then [''low_tavily_verification''] else [])
     @ (if boost < - 0.1 then [''high_tavily_verification''] else [])
     @ (if 0.7 < base_fake_prob then [''baseline_detection''] else [])"

text \<open>\<^verbatim>\<open>_generate_final_prediction\<close>.\<close>

definition generate_final_prediction ::
  "fusion_result \<Rightarrow> consistency_check \<Rightarrow> rhetorical_features option \<Rightarrow> verification_report
   \<Rightarrow> real \<Rightarrow> real \<Rightarrow> string \<Rightarrow> final_prediction" where
  "generate_final_prediction fusion_res cc rf r tavily_weight threshold text =
     (let base_fake_prob = fr_fake_probability fusion_res;
          cons_score = overall_consistency_score cc;
          temporal_score = cc_temporal_consistency_score cc;
          cons_adj = consistency_adjustment_of cons_score temporal_score;
          rhet_adj = rhetorical_adjustment_of rf;
          tav_adj = tavily_adjustment_of r tavily_weight;
          penalty = contradiction_penalty_of r tavily_weight text;
          boost = tavily_boost_of r;
          final_fake_prob = min 1.0 (max 0.0 (base_fake_prob + cons_adj + rhet_adj + tav_adj + penalty + boost));
          total_adjustment = \<bar>cons_adj\<bar> + \<bar>rhet_adj\<bar> + \<bar>tav_adj\<bar> + \<bar>penalty\<bar> + \<bar>boost\<bar>;
          final_confidence = final_confidence_of final_fake_prob total_adjustment
      in \<lparr>prediction = prediction_label final_fake_prob,
          fake_probability = final_fake_prob,
          fp_confidence = final_confidence,
          fp_explanation =
            \<lparr>base_fusion_score = base_fake_prob, consistency_adjustment = cons_adj,
             rhetorical_adjustment = rhet_adj, tavily_adjustment = tav_adj,
             tavily_contradiction_penalty = Some penalty, tavily_boost = boost,
             final_score = final_fake_prob, ex_confidence = final_confidence,
             key_factors =
               key_factors_of base_fake_prob temporal_score cons_adj rhet_adj tav_adj penalty boost\<rparr>,
          threshold_used = Some threshold\<rparr>)"

subsection \<open>ImprovedDetection: the pipeline\<close>

text \<open>The dict \<^verbatim>\<open>detection_config\<close>; the keys of the verification keep their old names.\<close>

record detection_config =
  use_wikipedia :: "bool option"
  use_rhetorical :: "bool option"
  use_consistency :: "bool option"
  threshold :: "real option"
  wikipedia_weight :: "real option"

definition empty_config :: detection_config where
  "empty_config =
     \<lparr>use_wikipedia = None, use_rhetorical = None, use_consistency = None,
      threshold = None, wikipedia_weight = None\<rparr>"

text \<open>
  What a request meets outside the engine: whether the verifier was built, the
  platform, how the call of the verifier ends, what the libraries return for the text,
  and the trained classifier's output, if a classifier was trained.
\<close>

record environment =
  verifier :: bool
  host :: platform
  verifier_call :: call_outcome
  text_libs :: text_libraries
  re_consistency :: consistency_matches
  fusion_model :: "trained_output option"

text \<open>The normal path of \<^verbatim>\<open>improved_detection\<close>, from the report on.\<close>

definition normal_path ::
  "environment \<Rightarrow> baseline_results \<Rightarrow> string \<Rightarrow> detection_config \<Rightarrow> verification_report
   \<Rightarrow> py_error + detection_result" where
  "normal_path env b text config r =
     (let use_rhet = dget (use_rhetorical config) True;
          use_cons = dget (use_consistency config) True;
          thr = dget (threshold config) 0.5;
          tavily_weight = dget (wikipedia_weight config) 1.0
      in case (if use_rhet then map_sum id Some (analyze_text (text_libs env) text) else Inr None) of
           Inl e \<Rightarrow> Inl e
         | Inr rf \<Rightarrow>
             (let cc = (if use_cons then comprehensive_consistency_check (re_consistency env) text
                        else consistency_skipped);
                  fusion_features = extract_fusion_features b rf
              in (case predict_fusion (fusion_model env) fusion_features b of
                    Inl e \<Rightarrow> Inl e
                  | Inr fusion_res \<Rightarrow>
                      Inr \<lparr>rhetorical_analysis = rf,
                           consistency_result = Some cc,
                           fusion = fusion_res,
                           tavily_verification = r,
                           fast_path = False,
                           final = generate_final_prediction fusion_res cc rf r tavily_weight thr text\<rparr>)))"

text \<open>
  \<^verbatim>\<open>improved_detection\<close>: the verification and its gate when there is a verifier and the
  verification is switched on, then the fast result or the normal path.
\<close>

definition improved_detection ::
  "environment \<Rightarrow> baseline_results \<Rightarrow> string \<Rightarrow> detection_config option \<Rightarrow> py_error + detection_result" where
  "improved_detection env b text detection_config =
     (let config = dget detection_config empty_config;
          use_verification = dget (use_wikipedia config) True
      in if verifier env \<and> use_verification then
           (case acquire_verification (host env) (verifier_call env) of
              Inl e \<Rightarrow> normal_path env b text config (handle_verification_error e)
            | Inr r \<Rightarrow>
                if fast_path_fires r then Inr (fast_result r)
                else normal_path env b text config r)
         else normal_path env b text config empty_report)"

subsection \<open>Three quantities in the wording of the specification\<close>

text \<open>
  The ratio of the specification: \<open>verified / checked\<close>, and 0 when nothing was checked.
\<close>

definition spec_ratio :: "int \<Rightarrow> int \<Rightarrow> real" where
  "spec_ratio verified checked = (if checked = 0 then 0 else real_of_int verified / real_of_int checked)"


text \<open>
  The temporal score as the specification words its last branch: 0.1 off for each
  reference to a year in \<open>[1800, current_year - 50)\<close>, clamped at 0.
\<close>

definition spec_historical_score :: "string \<Rightarrow> real" where
  "spec_historical_score text =
     max 0 (1 - 0.1 * real (length (filter (\<lambda>y. 1800 \<le> y \<and> y < current_year - 50) (year_matches text))))"

subsection \<open>Example requests\<close>

text \<open>The verification result of the specification's example of the fast path.\<close>

definition example_result :: verification_result where
  "example_result =
     \<lparr>verification_score = 0.80, entity_coverage = 0.70, vr_entities_found = 3,
      vr_entities_checked = 3, vr_claims_verified = 3, vr_claims_checked = 4\<rparr>"

text \<open>Libraries that find nothing: no match, textstat raising, no spaCy model.\<close>

definition example_libraries :: text_libraries where
  "example_libraries =
     \<lparr>re_loaded = \<lparr>m_conspiracy = 0, m_urgency = 0, m_authority = 0, m_vague_sources = 0,
                    m_emotional_triggers = 0\<rparr>,
      textstat_scores = None, spacy_nlp = None\<rparr>"

definition example_matches :: consistency_matches where
  "example_matches =
     \<lparr>locations = [], negation_contradiction = False, temporal_contradiction = False,
      trend_contradiction = False\<rparr>"

definition example_environment :: "call_outcome \<Rightarrow> trained_output option \<Rightarrow> environment" where
  "example_environment outcome model =
     \<lparr>verifier = True, host = Posix, verifier_call = outcome, text_libs = example_libraries,
      re_consistency = example_matches, fusion_model = model\<rparr>"

text \<open>Baseline results with the generative detector alone, at sensitivity 4.5.\<close>

definition example_baseline :: baseline_results where
  "example_baseline =
     \<lparr>text_detection_key =
        Some \<lparr>roberta = None,
              detectgpt = Some (no_detector\<lparr>sensitivity := Some 4.5, is_generated := Some False\<rparr>),
              gltr = None, zero_shot = None\<rparr>,
      clip = None, other_keys = True\<rparr>"

definition example_trained :: trained_output where
  "example_trained = \<lparr>predicted = ''fake'', probability = [0.3, 0.7]\<rparr>"

definition toggles_off :: detection_config where
  "toggles_off =
     \<lparr>use_wikipedia = Some False, use_rhetorical = Some False, use_consistency = Some False,
      threshold = None, wikipedia_weight = None\<rparr>"

text \<open>
  A verification whose first entity search is interrupted: that search fails, the four
  other entities have three results each, and the three claims are confirmed.
\<close>

definition interrupted_entity_searches :: "search_outcome list" where
  "interrupted_entity_searches =
     [SearchFailed, Response [] 3, Response [] 3, Response [] 3, Response [] 3]"

definition confirmed_claim_searches :: "search_outcome list" where
  "confirmed_claim_searches =
     [Response ''Confirmed by Reuters.'' 3, Response ''Confirmed by Reuters.'' 3,
      Response ''Confirmed by Reuters.'' 3]"

definition interrupted_result :: verification_result where
  "interrupted_result =
     comprehensive_verification True interrupted_entity_searches confirmed_claim_searches"



definition example_text :: string where
  "example_text = ''In 1900 and 1950 the records were kept''"

section \<open>Properties\<close>

subsection \<open>Auxiliary facts\<close>

lemma dget_simps: "dget None d = d" "dget (Some x) d = x"
  by (simp_all add: dget_def)

lemma prediction_label_bands:
  "prediction_label p = (if 0.6 \<le> p then ''fake'' else if p \<le> 0.4 then ''real'' else ''misleading'')"
  by (simp add: prediction_label_def Let_def)

lemma final_prediction_fields:
  "fake_probability (generate_final_prediction f cc rf r w t txt) =
     min 1 (max 0 (fr_fake_probability f
        + consistency_adjustment_of (overall_consistency_score cc) (cc_temporal_consistency_score cc)
        + rhetorical_adjustment_of rf + tavily_adjustment_of r w
        + contradiction_penalty_of r w txt + tavily_boost_of r))"
  "prediction (generate_final_prediction f cc rf r w t txt) =
     prediction_label (fake_probability (generate_final_prediction f cc rf r w t txt))"
  by (simp_all add: generate_final_prediction_def Let_def)

lemma final_explanation_fields:
  "consistency_adjustment (fp_explanation (generate_final_prediction f cc rf r w t txt)) =
     consistency_adjustment_of (overall_consistency_score cc) (cc_temporal_consistency_score cc)"
  "rhetorical_adjustment (fp_explanation (generate_final_prediction f cc rf r w t txt)) =
     rhetorical_adjustment_of rf"
  "tavily_adjustment (fp_explanation (generate_final_prediction f cc rf r w t txt)) =
     tavily_adjustment_of r w"
  "tavily_contradiction_penalty (fp_explanation (generate_final_prediction f cc rf r w t txt)) =
     Some (contradiction_penalty_of r w txt)"
  "tavily_boost (fp_explanation (generate_final_prediction f cc rf r w t txt)) = tavily_boost_of r"
  "base_fusion_score (fp_explanation (generate_final_prediction f cc rf r w t txt)) =
     fr_fake_probability f"
  by (simp_all add: generate_final_prediction_def Let_def)

lemma final_confidence_of_range: "0 \<le> final_confidence_of p a \<and> final_confidence_of p a \<le> 1"
  unfolding final_confidence_of_def Let_def by simp

lemma final_confidence_range:
  "0 \<le> fp_confidence (generate_final_prediction f cc rf r w t txt)"
  "fp_confidence (generate_final_prediction f cc rf r w t txt) \<le> 1"
  using final_confidence_of_range
  by (simp_all add: generate_final_prediction_def Let_def)

lemma final_probability_range:
  "0 \<le> fake_probability (generate_final_prediction f cc rf r w t txt)"
  "fake_probability (generate_final_prediction f cc rf r w t txt) \<le> 1"
  by (simp_all add: final_prediction_fields)

lemma fast_fake_prob_range:
  "0.75 \<le> s \<Longrightarrow> 0 \<le> fast_fake_prob s \<and> fast_fake_prob s \<le> 0.15"
  by (auto simp: fast_fake_prob_def max_def)

lemma fast_confidence_range: "0 \<le> fast_confidence s \<and> fast_confidence s \<le> 1"
  by (simp add: fast_confidence_def Let_def)

lemma fast_path_fires_score: "fast_path_fires r \<Longrightarrow> 0.75 \<le> dget (overall_score r) 0"
  by (simp add: fast_path_fires_def Let_def)

lemma fast_result_fields:
  "fake_probability (final (fast_result r)) = fast_fake_prob (dget (overall_score r) 0)"
  "fp_confidence (final (fast_result r)) = fast_confidence (dget (overall_score r) 0)"
  "prediction (final (fast_result r)) = ''real''"
  "fast_path (fast_result r) = True"
  "tavily_verification (fast_result r) = r"
  by (simp_all add: fast_result_def Let_def)

lemma normal_path_final:
  "normal_path env b txt config r = Inr res \<Longrightarrow>
     final res = generate_final_prediction (fusion res) (the (consistency_result res))
                   (rhetorical_analysis res) r (dget (wikipedia_weight config) 1.0)
                   (dget (threshold config) 0.5) txt
     \<and> fast_path res = False \<and> tavily_verification res = r"
  by (auto simp: normal_path_def Let_def split: sum.splits if_splits)

lemma improved_detection_cases:
  "improved_detection env b txt cfg = Inr res \<Longrightarrow>
     (\<exists>r. fast_path_fires r \<and> res = fast_result r)
     \<or> (\<exists>r. normal_path env b txt (dget cfg empty_config) r = Inr res)"
  by (auto simp: improved_detection_def Let_def split: sum.splits if_splits)

lemma length_feature_weights: "length feature_weights = 12"
  by (simp add: feature_weights_def feature_weights_raw_def)

lemma length_extract_fusion_features: "18 \<le> length (extract_fusion_features b rf)"
  by (simp add: extract_fusion_features_def Let_def split: option.splits)

lemma weighted_sum_returns:
  "12 \<le> length xs \<Longrightarrow>
     weighted_sum xs = Inr (sum_list (map (\<lambda>(x, w). x * w) (zip (take 12 xs) feature_weights)))"
  by (simp add: weighted_sum_def Let_def length_feature_weights)

lemma simple_weighted_fusion_probability:
  "simple_weighted_fusion fs b = Inr res \<Longrightarrow>
     \<exists>ws. weighted_sum (map normalize_feature fs) = Inr ws
        \<and> fr_fake_probability res =
            max 0 (min 1 (if 0 < ai_bonus (detectgpt_sensitivity_of fs b)
                          then min 1 (ws + ai_bonus (detectgpt_sensitivity_of fs b)) else ws))
        \<and> fr_ai_generated_detected res = Some (ai_detected (detectgpt_sensitivity_of fs b))"
  by (auto simp: simple_weighted_fusion_def Let_def split: sum.splits)

lemma simple_weighted_fusion_range:
  assumes "simple_weighted_fusion fs b = Inr res"
  shows "0 \<le> fr_fake_probability res \<and> fr_fake_probability res \<le> 1"
proof -
  from simple_weighted_fusion_probability [OF assms] obtain x
    where "fr_fake_probability res = max 0 (min 1 x)" by blast
  then show ?thesis by simp
qed

lemma simple_weighted_fusion_returns:
  "12 \<le> length fs \<Longrightarrow> \<exists>res. simple_weighted_fusion fs b = Inr res"
  by (simp add: simple_weighted_fusion_def Let_def weighted_sum_returns)

lemma predict_fusion_range:
  assumes "predict_fusion fm fs b = Inr res"
    and "\<forall>out. fm = Some out \<longrightarrow> (\<forall>p \<in> set (probability out). 0 \<le> p \<and> p \<le> 1)"
  shows "0 \<le> fr_fake_probability res \<and> fr_fake_probability res \<le> 1"
proof (cases fm)
  case None
  with assms(1) have "simple_weighted_fusion fs b = Inr res"
    by (simp add: predict_fusion_def)
  then show ?thesis by (rule simple_weighted_fusion_range)
next
  case (Some out)
  with assms(2) have bounds: "\<forall>p \<in> set (probability out). 0 \<le> p \<and> p \<le> 1" by simp
  from Some assms(1)
  have p: "fr_fake_probability res = (if 1 < length (probability out) then probability out ! 1 else 0.5)"
    by (auto simp: predict_fusion_def split: if_splits)
  show ?thesis
  proof (cases "1 < length (probability out)")
    case True
    then have "probability out ! 1 \<in> set (probability out)" by simp
    with bounds p True show ?thesis by simp
  next
    case False
    with p show ?thesis by simp
  qed
qed

lemma predict_fusion_returns:
  assumes "12 \<le> length fs" and "\<forall>out. fm = Some out \<longrightarrow> probability out \<noteq> []"
  shows "\<exists>res. predict_fusion fm fs b = Inr res"
proof (cases fm)
  case None
  with simple_weighted_fusion_returns [OF assms(1)] show ?thesis
    by (simp add: predict_fusion_def)
next
  case (Some out)
  with assms(2) show ?thesis by (simp add: predict_fusion_def)
qed

lemma neutral_terms:
  "consistency_adjustment_of (overall_consistency_score consistency_skipped)
     (cc_temporal_consistency_score consistency_skipped) = 0"
  "rhetorical_adjustment_of None = 0"
  "tavily_adjustment_of empty_report w = 0"
  "contradiction_penalty_of empty_report w txt = 0"
  "tavily_boost_of empty_report = 0"
  by (simp_all add: consistency_adjustment_of_def consistency_skipped_def rhetorical_adjustment_of_def
      tavily_adjustment_of_def contradiction_penalty_of_def tavily_boost_of_def has_score_def
      empty_report_def Let_def)

subsection \<open>The verdict bands\<close>

text \<open>
  C2. The verdict of the calibrator is \<open>fake\<close> when the final fake probability is at
  least 0.6, \<open>real\<close> when it is at most 0.4, and \<open>misleading\<close> strictly between the two;
  the probabilities 0.39, 0.40, 0.59, 0.60 and 0.61 give real, real, misleading, fake
  and fake.
\<close>

theorem verdict_bands:
  "prediction (generate_final_prediction f cc rf r w t txt) =
     (let p = fake_probability (generate_final_prediction f cc rf r w t txt)
      in if 0.6 \<le> p then ''fake'' else if p \<le> 0.4 then ''real'' else ''misleading'')
   \<and> prediction_label 0.39 = ''real''
   \<and> prediction_label 0.40 = ''real''
   \<and> prediction_label 0.59 = ''misleading''
   \<and> prediction_label 0.60 = ''fake''
   \<and> prediction_label 0.61 = ''fake''"
  by (simp add: final_prediction_fields(2) prediction_label_bands Let_def)



lemma analyze_text_returns:
  assumes "split txt \<noteq> []" and "spacy_nlp lib = None"
  shows "\<exists>rf. analyze_text lib txt = Inr rf"
  using assms
  by (simp add: analyze_text_def analyze_emotional_language_def detect_loaded_language_def
      detect_linguistic_patterns_def Let_def)

lemma enough_features: "12 \<le> length (extract_fusion_features b rf)"
  using length_extract_fusion_features [of b rf] by simp

lemma normal_path_returns:
  assumes "dget (use_rhetorical config) True \<Longrightarrow> \<exists>rf. analyze_text (text_libs env) txt = Inr rf"
    and "\<forall>out. fusion_model env = Some out \<longrightarrow> probability out \<noteq> []"
  shows "\<exists>res. normal_path env b txt config r = Inr res"
proof (cases "dget (use_rhetorical config) True")
  case True
  with assms(1) obtain rf where rf: "analyze_text (text_libs env) txt = Inr rf" by blast
  from predict_fusion_returns [OF enough_features assms(2)]
  obtain fres where "predict_fusion (fusion_model env) (extract_fusion_features b (Some rf)) b = Inr fres"
    by blast
  with True rf show ?thesis
    by (simp add: normal_path_def Let_def)
next
  case False
  from predict_fusion_returns [OF enough_features assms(2)]
  obtain fres where "predict_fusion (fusion_model env) (extract_fusion_features b None) b = Inr fres"
    by blast
  with False show ?thesis
    by (simp add: normal_path_def Let_def)
qed

lemma report_of_result_gate:
  "fast_path_fires (report_of_result vr) \<longleftrightarrow>
     0.75 \<le> verification_score vr \<and> 0.65 \<le> entity_coverage vr
     \<and> 0.75 \<le> spec_ratio (vr_claims_verified vr) (vr_claims_checked vr)
     \<and> 0.70 \<le> spec_ratio (vr_entities_found vr) (vr_entities_checked vr)
     \<and> 2 \<le> vr_claims_checked vr \<and> 2 \<le> vr_entities_checked vr"
  by (auto simp: fast_path_fires_def report_of_result_def gate_claims_ratio_def
      gate_entities_ratio_def spec_ratio_def dget_simps Let_def)

lemma neutral_report_no_gate: "\<not> fast_path_fires (report_of_quick_score 0.5)"
  by (simp add: fast_path_fires_def report_of_quick_score_def dget_simps Let_def)

lemma error_report_no_gate: "\<not> fast_path_fires (report_of_error msg)"
  by (simp add: fast_path_fires_def report_of_error_def dget_simps Let_def)

lemma improved_detection_returned:
  assumes "verifier env" and "dget (use_wikipedia (dget cfg empty_config)) True"
    and "verifier_call env = Returned vr"
  shows "improved_detection env b txt cfg =
           (if fast_path_fires (report_of_result vr) then Inr (fast_result (report_of_result vr))
            else normal_path env b txt (dget cfg empty_config) (report_of_result vr))"
  using assms
  by (cases "host env") (simp_all add: improved_detection_def acquire_verification_def Let_def)

subsection \<open>The gate of the fast path\<close>

text \<open>
  C1. With a verifier, the verification switched on and a verification result
  returned, the fast path fires if and only if the score is at least 0.75, the
  coverage at least 0.65, the ratio of verified claims at least 0.75, the ratio of
  found entities at least 0.70 (a ratio being 0 when nothing was checked), and at
  least two claims and two entities were checked; otherwise the normal path runs on
  the report. The result with score 0.80, coverage 0.70, claims 3/4 and entities 3/3
  fires; the same result with one claim checked does not.
\<close>

theorem fast_path_gate:
  assumes "verifier env" and "dget (use_wikipedia (dget cfg empty_config)) True"
    and "verifier_call env = Returned vr"
  shows "((\<exists>res. improved_detection env b txt cfg = Inr res \<and> fast_path res) \<longleftrightarrow>
            0.75 \<le> verification_score vr \<and> 0.65 \<le> entity_coverage vr
            \<and> 0.75 \<le> spec_ratio (vr_claims_verified vr) (vr_claims_checked vr)
            \<and> 0.70 \<le> spec_ratio (vr_entities_found vr) (vr_entities_checked vr)
            \<and> 2 \<le> vr_claims_checked vr \<and> 2 \<le> vr_entities_checked vr)
       \<and> (\<not> fast_path_fires (report_of_result vr) \<longrightarrow>
            improved_detection env b txt cfg =
              normal_path env b txt (dget cfg empty_config) (report_of_result vr))
       \<and> fast_path_fires (report_of_result example_result)
       \<and> \<not> fast_path_fires (report_of_result (example_result\<lparr>vr_claims_checked := 1\<rparr>))"
proof -
  note eq = improved_detection_returned [OF assms, of b "txt"]
  have "(\<exists>res. improved_detection env b txt cfg = Inr res \<and> fast_path res)
          \<longleftrightarrow> fast_path_fires (report_of_result vr)"
  proof (cases "fast_path_fires (report_of_result vr)")
    case True
    with eq show ?thesis by (simp add: fast_result_fields)
  next
    case False
    with eq have "improved_detection env b txt cfg =
        normal_path env b txt (dget cfg empty_config) (report_of_result vr)" by simp
    with False show ?thesis by (auto dest: normal_path_final)
  qed
  moreover have "fast_path_fires (report_of_result example_result)"
    by (simp add: report_of_result_gate example_result_def spec_ratio_def)
  moreover have "\<not> fast_path_fires (report_of_result (example_result\<lparr>vr_claims_checked := 1\<rparr>))"
    by (simp add: report_of_result_gate example_result_def spec_ratio_def)
  ultimately show ?thesis
    using eq by (simp add: report_of_result_gate)
qed

theorem fast_path_gate_witness:
  "verifier (example_environment (Returned example_result) None)
   \<and> dget (use_wikipedia (dget None empty_config)) True
   \<and> verifier_call (example_environment (Returned example_result) None) = Returned example_result
   \<and> (\<exists>res. improved_detection (example_environment (Returned example_result) None)
               example_baseline example_text None = Inr res \<and> fast_path res)"
proof -
  have 1: "verifier (example_environment (Returned example_result) None)"
    by (simp add: example_environment_def)
  have 2: "dget (use_wikipedia (dget None empty_config)) True"
    by (simp add: dget_simps empty_config_def)
  have 3: "verifier_call (example_environment (Returned example_result) None) = Returned example_result"
    by (simp add: example_environment_def)
  from fast_path_gate [OF 1 2 3, of example_baseline example_text]
  have "(\<exists>res. improved_detection (example_environment (Returned example_result) None)
               example_baseline example_text None = Inr res \<and> fast_path res)
        \<longleftrightarrow> 0.75 \<le> verification_score example_result \<and> 0.65 \<le> entity_coverage example_result
            \<and> 0.75 \<le> spec_ratio (vr_claims_verified example_result) (vr_claims_checked example_result)
            \<and> 0.70 \<le> spec_ratio (vr_entities_found example_result) (vr_entities_checked example_result)
            \<and> 2 \<le> vr_claims_checked example_result \<and> 2 \<le> vr_entities_checked example_result"
    by blast
  then have "\<exists>res. improved_detection (example_environment (Returned example_result) None)
               example_baseline example_text None = Inr res \<and> fast_path res"
    by (simp add: example_result_def spec_ratio_def)
  with 1 2 3 show ?thesis by blast
qed

lemma example_text_words: "split example_text \<noteq> []"
  by (simp add: example_text_def split_def is_space_def ord_def)

lemma improved_detection_timeout:
  assumes "verifier env" and "dget (use_wikipedia (dget cfg empty_config)) True"
    and "verifier_call env = TimedOut"
  shows "improved_detection env b txt cfg =
           normal_path env b txt (dget cfg empty_config) (report_of_quick_score 0.5)"
  using assms neutral_report_no_gate
  by (cases "host env") (simp_all add: improved_detection_def acquire_verification_def Let_def)

subsection \<open>The range of the final probability and of the confidence\<close>

text \<open>
  C3. Whatever the request, a result of \<open>improved_detection\<close>, from the fast path or
  from the normal path, has its final fake probability and its confidence in \<open>[0, 1]\<close>.
\<close>

theorem range_invariant:
  assumes "improved_detection env b txt cfg = Inr res"
  shows "0 \<le> fake_probability (final res) \<and> fake_probability (final res) \<le> 1
       \<and> 0 \<le> fp_confidence (final res) \<and> fp_confidence (final res) \<le> 1"
proof -
  from improved_detection_cases [OF assms]
  consider r where "fast_path_fires r" "res = fast_result r"
    | r where "normal_path env b txt (dget cfg empty_config) r = Inr res"
    by blast
  then show ?thesis
  proof cases
    case 1
    from fast_fake_prob_range [OF fast_path_fires_score [OF 1(1)]]
    have "0 \<le> fast_fake_prob (dget (overall_score r) 0)"
      and "fast_fake_prob (dget (overall_score r) 0) \<le> 1"
      by simp_all
    with 1(2) fast_confidence_range [of "dget (overall_score r) 0"] show ?thesis
      by (simp add: fast_result_fields)
  next
    case 2
    from normal_path_final [OF 2] obtain f cc rf w t
      where "final res = generate_final_prediction f cc rf r w t txt" by blast
    then show ?thesis
      using final_probability_range [of f cc rf r w t "txt"]
        final_confidence_range [of f cc rf r w t "txt"]
      by simp
  qed
qed

theorem range_invariant_witness:
  "\<exists>res. improved_detection (example_environment TimedOut None) example_baseline example_text None
            = Inr res
      \<and> 0 \<le> fake_probability (final res) \<and> fake_probability (final res) \<le> 1
      \<and> 0 \<le> fp_confidence (final res) \<and> fp_confidence (final res) \<le> 1"
proof -
  have "\<exists>rf. analyze_text (text_libs (example_environment TimedOut None)) example_text = Inr rf"
    by (rule analyze_text_returns)
      (simp_all add: example_text_words example_environment_def example_libraries_def)
  then have "\<exists>res. normal_path (example_environment TimedOut None) example_baseline example_text
                empty_config (report_of_quick_score 0.5) = Inr res"
    by (intro normal_path_returns) (simp_all add: example_environment_def)
  then obtain res where
    "improved_detection (example_environment TimedOut None) example_baseline example_text None = Inr res"
    by (auto simp: improved_detection_timeout example_environment_def dget_simps empty_config_def)
  with range_invariant [OF this] show ?thesis by blast
qed



lemma fast_confidence_clamp:
  "fast_confidence s =
     max 0 (min 1 ((\<bar>fast_fake_prob s - 0.5\<bar> * 2) powr 1.5 + (if 0.75 < s then 0.15 else 0)))"
  by (simp add: fast_confidence_def Let_def)

subsection \<open>The result of the fast path\<close>

text \<open>
  C4. When the fast path fires on a report of score \<open>s\<close>, the result has the
  prediction \<open>real\<close>, the fake probability \<open>p = max(0, 0.15 - (s - 0.75) \<times> 0.3)\<close>, which
  is at most 0.15, and the confidence \<open>(|p - 0.5| \<times> 2)\<^sup>1\<^sup>.\<^sup>5\<close> plus 0.15 when \<open>s > 0.75\<close>,
  clamped to \<open>[0, 1]\<close>.
\<close>

theorem fast_path_result:
  assumes "verifier env" and "dget (use_wikipedia (dget cfg empty_config)) True"
    and "verifier_call env = Returned vr"
    and "fast_path_fires (report_of_result vr)"
  shows "\<exists>res. improved_detection env b txt cfg = Inr res
           \<and> fast_path res
           \<and> prediction (final res) = ''real''
           \<and> fake_probability (final res) = max 0 (0.15 - (verification_score vr - 0.75) * 0.3)
           \<and> fake_probability (final res) \<le> 0.15
           \<and> fp_confidence (final res) =
               max 0 (min 1 ((\<bar>fake_probability (final res) - 0.5\<bar> * 2) powr 1.5
                              + (if 0.75 < verification_score vr then 0.15 else 0)))"
proof -
  let ?r = "report_of_result vr"
  have s: "dget (overall_score ?r) 0 = verification_score vr"
    by (simp add: report_of_result_def dget_simps)
  from improved_detection_returned [OF assms(1-3), of b "txt"] assms(4)
  have eq: "improved_detection env b txt cfg = Inr (fast_result ?r)" by simp
  from fast_fake_prob_range [OF fast_path_fires_score [OF assms(4)]] s
  have le: "fast_fake_prob (verification_score vr) \<le> 0.15" by simp
  have p: "fast_fake_prob (verification_score vr) = max 0 (0.15 - (verification_score vr - 0.75) * 0.3)"
    by (simp add: fast_fake_prob_def)
  show ?thesis
    unfolding eq
    using le p fast_confidence_clamp [of "verification_score vr"]
    by (simp add: fast_result_fields s)
qed

theorem fast_path_result_witness:
  "verifier (example_environment (Returned example_result) None)
   \<and> dget (use_wikipedia (dget (Some empty_config) empty_config)) True
   \<and> verifier_call (example_environment (Returned example_result) None) = Returned example_result
   \<and> fast_path_fires (report_of_result example_result)
   \<and> (\<exists>res. improved_detection (example_environment (Returned example_result) None)
               example_baseline example_text (Some empty_config) = Inr res
           \<and> prediction (final res) = ''real''
           \<and> fake_probability (final res) = 0.135
           \<and> fake_probability (final res) \<le> 0.15)"
proof -
  have 1: "verifier (example_environment (Returned example_result) None)"
    by (simp add: example_environment_def)
  have 2: "dget (use_wikipedia (dget (Some empty_config) empty_config)) True"
    by (simp add: dget_simps empty_config_def)
  have 3: "verifier_call (example_environment (Returned example_result) None) = Returned example_result"
    by (simp add: example_environment_def)
  have 4: "fast_path_fires (report_of_result example_result)"
    by (simp add: report_of_result_gate example_result_def spec_ratio_def)
  have 5: "max 0 (0.15 - (verification_score example_result - 0.75) * 0.3) = (0.135::real)"
    by (simp add: example_result_def)
  from fast_path_result [OF 1 2 3 4, of example_baseline example_text] 5
  have "\<exists>res. improved_detection (example_environment (Returned example_result) None)
               example_baseline example_text (Some empty_config) = Inr res
           \<and> prediction (final res) = ''real''
           \<and> fake_probability (final res) = 0.135
           \<and> fake_probability (final res) \<le> 0.15"
    by auto
  with 1 2 3 4 show ?thesis by blast
qed

subsection \<open>The collapse to the base score\<close>

lemma normal_path_neutral:
  assumes "use_rhetorical config = Some False" and "use_consistency config = Some False"
    and "normal_path env b txt config empty_report = Inr res"
  shows "final res = generate_final_prediction (fusion res) consistency_skipped None empty_report
                       (dget (wikipedia_weight config) 1.0) (dget (threshold config) 0.5) txt
       \<and> predict_fusion (fusion_model env) (extract_fusion_features b None) b = Inr (fusion res)"
  using assms
  by (auto simp: normal_path_def Let_def dget_simps split: sum.splits)

text \<open>
  C5. With the three toggles switched off, the final fake probability is the base
  score of the fusion: the five adjustments are zero and the clamp leaves the base
  score as it is. A trained classifier is taken to return probabilities.
\<close>

theorem neutral_collapse:
  assumes "use_wikipedia config = Some False" and "use_rhetorical config = Some False"
    and "use_consistency config = Some False"
    and "\<forall>out. fusion_model env = Some out \<longrightarrow>
           probability out \<noteq> [] \<and> (\<forall>p \<in> set (probability out). 0 \<le> p \<and> p \<le> 1)"
  shows "\<exists>res. improved_detection env b txt (Some config) = Inr res
           \<and> predict_fusion (fusion_model env) (extract_fusion_features b None) b = Inr (fusion res)
           \<and> fake_probability (final res) = fr_fake_probability (fusion res)
           \<and> base_fusion_score (fp_explanation (final res)) = fr_fake_probability (fusion res)
           \<and> consistency_adjustment (fp_explanation (final res)) = 0
           \<and> rhetorical_adjustment (fp_explanation (final res)) = 0
           \<and> tavily_adjustment (fp_explanation (final res)) = 0
           \<and> tavily_contradiction_penalty (fp_explanation (final res)) = Some 0
           \<and> tavily_boost (fp_explanation (final res)) = 0
           \<and> min 1 (max 0 (fr_fake_probability (fusion res))) = fr_fake_probability (fusion res)"
proof -
  have eq: "improved_detection env b txt (Some config) = normal_path env b txt config empty_report"
    using assms(1) by (simp add: improved_detection_def Let_def dget_simps)
  have "\<exists>res. normal_path env b txt config empty_report = Inr res"
    using assms(2,4) by (intro normal_path_returns) (simp_all add: dget_simps)
  then obtain res where res: "normal_path env b txt config empty_report = Inr res" by blast
  from normal_path_neutral [OF assms(2,3) res]
  have fin: "final res = generate_final_prediction (fusion res) consistency_skipped None empty_report
                       (dget (wikipedia_weight config) 1.0) (dget (threshold config) 0.5) txt"
    and fus: "predict_fusion (fusion_model env) (extract_fusion_features b None) b = Inr (fusion res)"
    by simp_all
  from predict_fusion_range [OF fus] assms(4)
  have range: "0 \<le> fr_fake_probability (fusion res) \<and> fr_fake_probability (fusion res) \<le> 1"
    by blast
  have "fake_probability (final res) = min 1 (max 0 (fr_fake_probability (fusion res)))"
    unfolding fin by (simp add: final_prediction_fields neutral_terms)
  with range have "fake_probability (final res) = fr_fake_probability (fusion res)"
    and "min 1 (max 0 (fr_fake_probability (fusion res))) = fr_fake_probability (fusion res)"
    by simp_all
  moreover have "base_fusion_score (fp_explanation (final res)) = fr_fake_probability (fusion res)"
    and "consistency_adjustment (fp_explanation (final res)) = 0"
    and "rhetorical_adjustment (fp_explanation (final res)) = 0"
    and "tavily_adjustment (fp_explanation (final res)) = 0"
    and "tavily_contradiction_penalty (fp_explanation (final res)) = Some 0"
    and "tavily_boost (fp_explanation (final res)) = 0"
    unfolding fin by (simp_all add: final_explanation_fields neutral_terms)
  ultimately show ?thesis
    using eq res fus by simp
qed

theorem neutral_collapse_witness:
  "use_wikipedia toggles_off = Some False \<and> use_rhetorical toggles_off = Some False
   \<and> use_consistency toggles_off = Some False
   \<and> fusion_model (example_environment TimedOut (Some example_trained)) = Some example_trained
   \<and> probability example_trained = [0.3, 0.7]
   \<and> (\<exists>res. improved_detection (example_environment TimedOut (Some example_trained))
               example_baseline example_text (Some toggles_off) = Inr res
           \<and> fr_fake_probability (fusion res) = 0.7
           \<and> fake_probability (final res) = 0.7)
   \<and> (\<exists>res. improved_detection (example_environment TimedOut None)
               example_baseline example_text (Some toggles_off) = Inr res
           \<and> fake_probability (final res) = fr_fake_probability (fusion res))"
proof -
  have t: "use_wikipedia toggles_off = Some False" "use_rhetorical toggles_off = Some False"
    "use_consistency toggles_off = Some False"
    by (simp_all add: toggles_off_def)
  have m: "\<forall>out. fusion_model (example_environment TimedOut (Some example_trained)) = Some out \<longrightarrow>
           probability out \<noteq> [] \<and> (\<forall>p \<in> set (probability out). 0 \<le> p \<and> p \<le> 1)"
    by (simp add: example_environment_def example_trained_def)
  have n: "\<forall>out. fusion_model (example_environment TimedOut None) = Some out \<longrightarrow>
           probability out \<noteq> [] \<and> (\<forall>p \<in> set (probability out). 0 \<le> p \<and> p \<le> 1)"
    by (simp add: example_environment_def)
  from neutral_collapse [OF t m, of example_baseline example_text]
  obtain res where res:
    "improved_detection (example_environment TimedOut (Some example_trained))
       example_baseline example_text (Some toggles_off) = Inr res"
    "predict_fusion (fusion_model (example_environment TimedOut (Some example_trained)))
       (extract_fusion_features example_baseline None) example_baseline = Inr (fusion res)"
    "fake_probability (final res) = fr_fake_probability (fusion res)"
    by blast
  have "predict_fusion (fusion_model (example_environment TimedOut (Some example_trained)))
       (extract_fusion_features example_baseline None) example_baseline
     = Inr \<lparr>fr_prediction = Some ''fake'', fr_fake_probability = 0.7, fr_confidence = 0.7,
            fr_method = ''trained_fusion'', fr_ai_generated_detected = None,
            fr_num_features_used = None\<rparr>"
    by (simp add: predict_fusion_def example_environment_def example_trained_def)
  with res(2) have "fusion res = \<lparr>fr_prediction = Some ''fake'', fr_fake_probability = 0.7,
            fr_confidence = 0.7, fr_method = ''trained_fusion'', fr_ai_generated_detected = None,
            fr_num_features_used = None\<rparr>"
    by simp
  then have "fr_fake_probability (fusion res) = 0.7"
    by simp
  with res have a: "\<exists>res. improved_detection (example_environment TimedOut (Some example_trained))
               example_baseline example_text (Some toggles_off) = Inr res
           \<and> fr_fake_probability (fusion res) = 0.7
           \<and> fake_probability (final res) = 0.7"
    by auto
  from neutral_collapse [OF t n, of example_baseline example_text]
  have b: "\<exists>res. improved_detection (example_environment TimedOut None)
               example_baseline example_text (Some toggles_off) = Inr res
           \<and> fake_probability (final res) = fr_fake_probability (fusion res)"
    by blast
  have e: "fusion_model (example_environment TimedOut (Some example_trained)) = Some example_trained"
    "probability example_trained = [0.3, 0.7]"
    by (simp_all add: example_environment_def example_trained_def)
  from t e a b show ?thesis by blast
qed



subsection \<open>A verification that runs over its deadline\<close>

lemma report_fields:
  "overall_score (report_of_quick_score q) = Some q"
  "tavily_coverage (report_of_quick_score q) = Some (if 0.5 < q then 1.0 else 0.5)"
  "report_error (report_of_quick_score q) = None"
  "overall_score (report_of_error msg) = Some 0"
  "tavily_coverage (report_of_error msg) = Some 0"
  "report_error (report_of_error msg) = Some msg"
  "report_error (report_of_result vr) = None"
  by (simp_all add: report_of_quick_score_def report_of_error_def report_of_result_def)

lemma interrupted_result_value:
  "interrupted_result =
     \<lparr>verification_score = 0.92, entity_coverage = 0.8, vr_entities_found = 4,
      vr_entities_checked = 5, vr_claims_verified = 3, vr_claims_checked = 3\<rparr>"
  by code_simp

lemma interrupted_result_fires: "fast_path_fires (report_of_result interrupted_result)"
  by (simp add: report_of_result_gate interrupted_result_value spec_ratio_def)

lemma improved_detection_swallowed:
  assumes "verifier env" and "dget (use_wikipedia (dget cfg empty_config)) True"
    and "host env = Posix" and "verifier_call env = TimedOutInSearch vr"
  shows "improved_detection env b txt cfg =
           (if fast_path_fires (report_of_result vr) then Inr (fast_result (report_of_result vr))
            else normal_path env b txt (dget cfg empty_config) (report_of_result vr))"
  using assms
  by (simp add: improved_detection_def acquire_verification_def Let_def)

lemma timeout_result_exists:
  "\<exists>res. normal_path (example_environment TimedOut None) example_baseline example_text
            (dget None empty_config) (report_of_quick_score 0.5) = Inr res"
proof -
  have "\<exists>rf. analyze_text (text_libs (example_environment TimedOut None)) example_text = Inr rf"
    by (rule analyze_text_returns)
      (simp_all add: example_text_words example_environment_def example_libraries_def)
  then show ?thesis
    by (intro normal_path_returns) (simp_all add: example_environment_def)
qed

text \<open>
  C7 fails in the code. Where the deadline is an alarm, a call that is inside a search
  of the verifier when the alarm goes off keeps running: the search swallows the
  \<^verbatim>\<open>TimeoutError\<close>, the call returns its result, and the fast path fires on the report
  built from it, which has no error. A call that the alarm stops, and on Windows a call
  that is still running after the join, gives the report built from the neutral quick
  score: score 0.5 and coverage 0.5, not 0, and no error.
\<close>

theorem deadline_not_enforced:
  "interrupted_result =
     \<lparr>verification_score = 0.92, entity_coverage = 0.8, vr_entities_found = 4,
      vr_entities_checked = 5, vr_claims_verified = 3, vr_claims_checked = 3\<rparr>
   \<and> acquire_verification Posix (TimedOutInSearch interrupted_result)
       = Inr (report_of_result interrupted_result)
   \<and> overall_score (report_of_result interrupted_result) = Some 0.92
   \<and> report_error (report_of_result interrupted_result) = None
   \<and> fast_path_fires (report_of_result interrupted_result)
   \<and> improved_detection (example_environment (TimedOutInSearch interrupted_result) None)
        example_baseline example_text None
       = Inr (fast_result (report_of_result interrupted_result))
   \<and> acquire_verification Posix TimedOut = Inr (report_of_quick_score 0.5)
   \<and> acquire_verification Windows TimedOut = Inr (report_of_quick_score 0.5)
   \<and> acquire_verification Windows (TimedOutInSearch interrupted_result)
       = Inr (report_of_quick_score 0.5)
   \<and> map_sum id (overall_score \<circ> tavily_verification)
        (improved_detection (example_environment TimedOut None) example_baseline example_text None)
      = Inr (Some 0.5)
   \<and> map_sum id (tavily_coverage \<circ> tavily_verification)
        (improved_detection (example_environment TimedOut None) example_baseline example_text None)
      = Inr (Some 0.5)
   \<and> map_sum id (report_error \<circ> tavily_verification)
        (improved_detection (example_environment TimedOut None) example_baseline example_text None)
      = Inr None"
proof -
  let ?env = "example_environment TimedOut None"
  let ?senv = "example_environment (TimedOutInSearch interrupted_result) None"
  have acq: "acquire_verification Posix (TimedOutInSearch interrupted_result)
       = Inr (report_of_result interrupted_result)"
    "acquire_verification Posix TimedOut = Inr (report_of_quick_score 0.5)"
    "acquire_verification Windows TimedOut = Inr (report_of_quick_score 0.5)"
    "acquire_verification Windows (TimedOutInSearch interrupted_result)
       = Inr (report_of_quick_score 0.5)"
    by (simp_all add: acquire_verification_def)
  have score: "overall_score (report_of_result interrupted_result) = Some 0.92"
    by (simp add: report_of_result_def interrupted_result_value)
  have "improved_detection ?senv example_baseline example_text None =
        (if fast_path_fires (report_of_result interrupted_result)
         then Inr (fast_result (report_of_result interrupted_result))
         else normal_path ?senv example_baseline example_text (dget None empty_config)
                (report_of_result interrupted_result))"
    by (rule improved_detection_swallowed)
      (simp_all add: example_environment_def dget_simps empty_config_def)
  with interrupted_result_fires
  have fast: "improved_detection ?senv example_baseline example_text None
       = Inr (fast_result (report_of_result interrupted_result))"
    by simp
  have eq: "improved_detection ?env example_baseline example_text None
     = normal_path ?env example_baseline example_text
         (dget None empty_config) (report_of_quick_score 0.5)"
    by (rule improved_detection_timeout)
      (simp_all add: example_environment_def dget_simps empty_config_def)
  from timeout_result_exists obtain res where res: "normal_path ?env example_baseline example_text
                (dget None empty_config) (report_of_quick_score 0.5) = Inr res"
    by blast
  from normal_path_final [OF res]
  have "tavily_verification res = report_of_quick_score 0.5" by simp
  with eq res have neutral:
    "map_sum id (overall_score \<circ> tavily_verification)
        (improved_detection ?env example_baseline example_text None) = Inr (Some 0.5)"
    "map_sum id (tavily_coverage \<circ> tavily_verification)
        (improved_detection ?env example_baseline example_text None) = Inr (Some 0.5)"
    "map_sum id (report_error \<circ> tavily_verification)
        (improved_detection ?env example_baseline example_text None) = Inr None"
    by (simp_all add: report_fields)
  from interrupted_result_value acq score report_fields(7) [of interrupted_result]
    interrupted_result_fires fast neutral
  show ?thesis by blast
qed

subsection \<open>The bonus of the weighted heuristic\<close>

lemma tier_bonus:
  "ai_bonus (Num v) =
     (if 5.0 < v then 0.20
      else if 4.2 < v \<and> v \<le> 5.0 then 0.12
      else if 3.8 < v \<and> v \<le> 4.2 then 0.08
      else if 3.5 < v \<and> v \<le> 3.8 then 0.04
      else 0)"
  by (simp add: ai_bonus_def pf_gt_def)

lemma tier_flag: "ai_detected (Num v) = (4.2 < v)"
  by (simp add: ai_detected_def pf_gt_def)

lemma ai_bonus_nonneg: "0 \<le> ai_bonus v"
  by (simp add: ai_bonus_def)

lemma bonus_clamp:
  "0 \<le> bonus \<Longrightarrow>
     max 0 (min 1 (if 0 < bonus then min 1 (ws + bonus) else ws)) = max 0 (min 1 (ws + bonus :: real))"
  by (cases "0 < bonus") simp_all

text \<open>
  C10. Without a trained classifier, the heuristic adds to the weighted sum a bonus
  that depends on the raw sensitivity \<open>v\<close> of the generative detector: 0.20 above 5.0, 0.12
  in \<open>(4.2, 5.0]\<close>, 0.08 in \<open>(3.8, 4.2]\<close>, 0.04 in \<open>(3.5, 3.8]\<close> and nothing below; the
  flag of AI generation is set exactly when \<open>v > 4.2\<close>, and the sum with its bonus is
  clamped to \<open>[0, 1]\<close>.
\<close>

theorem ai_generation_bonus:
  assumes "predict_fusion None fs b = Inr res"
    and "text_detection_key b = Some td" and "detectgpt td = Some d"
    and "error d = None" and "sensitivity d = Some v"
  shows "\<exists>ws. weighted_sum (map normalize_feature fs) = Inr ws
           \<and> fr_fake_probability res =
               max 0 (min 1 (ws + (if 5.0 < v then 0.20
                                   else if 4.2 < v \<and> v \<le> 5.0 then 0.12
                                   else if 3.8 < v \<and> v \<le> 4.2 then 0.08
                                   else if 3.5 < v \<and> v \<le> 3.8 then 0.04
                                   else 0)))
           \<and> fr_ai_generated_detected res = Some (4.2 < v)
           \<and> 0 \<le> fr_fake_probability res \<and> fr_fake_probability res \<le> 1"
proof -
  from assms(2-5) have v: "detectgpt_sensitivity_of fs b = Num v"
    by (simp add: detectgpt_sensitivity_of_def truthy_def dget_simps Let_def)
  from assms(1) have swf: "simple_weighted_fusion fs b = Inr res"
    by (simp add: predict_fusion_def)
  from simple_weighted_fusion_probability [OF swf] obtain ws
    where ws: "weighted_sum (map normalize_feature fs) = Inr ws"
      and p: "fr_fake_probability res =
                max 0 (min 1 (if 0 < ai_bonus (Num v) then min 1 (ws + ai_bonus (Num v)) else ws))"
      and flag: "fr_ai_generated_detected res = Some (ai_detected (Num v))"
    unfolding v by blast
  from p have "fr_fake_probability res = max 0 (min 1 (ws + ai_bonus (Num v)))"
    by (simp only: bonus_clamp [OF ai_bonus_nonneg])
  with ws flag simple_weighted_fusion_range [OF swf] show ?thesis
    by (simp add: tier_bonus tier_flag)
qed

theorem ai_generation_bonus_witness:
  "\<exists>res. predict_fusion None (extract_fusion_features example_baseline None) example_baseline = Inr res
      \<and> text_detection_key example_baseline
          = Some \<lparr>roberta = None,
                  detectgpt = Some (no_detector\<lparr>sensitivity := Some 4.5, is_generated := Some False\<rparr>),
                  gltr = None, zero_shot = None\<rparr>
      \<and> fr_ai_generated_detected res = Some True
      \<and> (\<exists>ws. weighted_sum (map normalize_feature (extract_fusion_features example_baseline None)) = Inr ws
             \<and> fr_fake_probability res = max 0 (min 1 (ws + 0.12)))"
proof -
  let ?td = "\<lparr>roberta = None,
              detectgpt = Some (no_detector\<lparr>sensitivity := Some 4.5, is_generated := Some False\<rparr>),
              gltr = None, zero_shot = None\<rparr>"
  let ?d = "no_detector\<lparr>sensitivity := Some 4.5, is_generated := Some False\<rparr>"
  from simple_weighted_fusion_returns [OF enough_features, of example_baseline None example_baseline]
  obtain res where
    res: "predict_fusion None (extract_fusion_features example_baseline None) example_baseline = Inr res"
    by (auto simp: predict_fusion_def)
  have 2: "text_detection_key example_baseline = Some ?td" by (simp add: example_baseline_def)
  have 3: "detectgpt ?td = Some ?d" by simp
  have 4: "error ?d = None" by (simp add: no_detector_def)
  have 5: "sensitivity ?d = Some 4.5" by simp
  from ai_generation_bonus [OF res 2 3 4 5] res 2 show ?thesis
    by auto
qed



subsection \<open>The contradiction penalties\<close>




lemma ratios_differ:
  "calib_claims_ratio (report_of_result
      \<lparr>verification_score = 0.8, entity_coverage = 1.0, vr_entities_found = 5,
       vr_entities_checked = 5, vr_claims_verified = 2, vr_claims_checked = 3\<rparr>) = 2
   \<and> gate_claims_ratio (report_of_result
      \<lparr>verification_score = 0.8, entity_coverage = 1.0, vr_entities_found = 5,
       vr_entities_checked = 5, vr_claims_verified = 2, vr_claims_checked = 3\<rparr>) = 2 / 3"
  by (simp add: calib_claims_ratio_def gate_claims_ratio_def report_of_result_def dget_simps Let_def)




lemma medieval_years: "years_in_text ''Founded in 1205'' = []"
  by code_simp






subsection \<open>The historical references of the temporal check\<close>

text \<open>
  C9, as the code has it. When the text has a year in \<open>[1800, current_year - 50)\<close>, no
  year before 1500, and no year in \<open>[1500, 1800)\<close> together with a modern keyword, the
  temporal score loses 0.1 once, however many such years the text has (after the 0.4
  of a year in the future, if there is one).
\<close>

theorem historical_reference_flat:
  assumes "filter (\<lambda>y. 1800 \<le> y \<and> y < current_year - 50) (year_matches txt) \<noteq> []"
    and "filter (\<lambda>y. y < 1500) (year_matches txt) = []"
    and "filter (\<lambda>y. 1500 \<le> y \<and> y < 1800) (year_matches txt) = []
         \<or> list_all (\<lambda>keyword. \<not> contains (lower txt) keyword) modern_keywords"
  shows "temporal_consistency_score (check_temporal_consistency txt) =
           (if filter (\<lambda>y. current_year + 1 < y) (year_matches txt) \<noteq> [] then 1 - 0.4 - 0.1
            else 1 - 0.1)"
proof -
  from assms(1) have ys: "year_matches txt \<noteq> []" by auto
  from assms(3) have old: "\<not> (filter (\<lambda>y. 1500 \<le> y \<and> y < 1800) (year_matches txt) \<noteq> []
      \<and> list_ex (\<lambda>keyword. contains (lower txt) keyword) modern_keywords)"
    by (auto simp: list_all_iff list_ex_iff)
  show ?thesis
    using assms(1,2) ys old
    by (simp add: check_temporal_consistency_def Let_def)
qed

lemma example_year_matches: "year_matches example_text = [1900, 1950]"
  by code_simp

theorem historical_reference_flat_witness:
  "filter (\<lambda>y. 1800 \<le> y \<and> y < current_year - 50) (year_matches example_text) \<noteq> []
   \<and> filter (\<lambda>y. y < 1500) (year_matches example_text) = []
   \<and> (filter (\<lambda>y. 1500 \<le> y \<and> y < 1800) (year_matches example_text) = []
      \<or> list_all (\<lambda>keyword. \<not> contains (lower example_text) keyword) modern_keywords)
   \<and> temporal_consistency_score (check_temporal_consistency example_text) = 0.9"
proof -
  have 1: "filter (\<lambda>y. 1800 \<le> y \<and> y < current_year - 50) (year_matches example_text) \<noteq> []"
    by (simp add: example_year_matches current_year_def)
  have 2: "filter (\<lambda>y. y < 1500) (year_matches example_text) = []"
    by (simp add: example_year_matches)
  have 3: "filter (\<lambda>y. 1500 \<le> y \<and> y < 1800) (year_matches example_text) = []
      \<or> list_all (\<lambda>keyword. \<not> contains (lower example_text) keyword) modern_keywords"
    by (simp add: example_year_matches)
  from historical_reference_flat [OF 1 2 3]
  have "temporal_consistency_score (check_temporal_consistency example_text) = 0.9"
    by (simp add: example_year_matches current_year_def)
  with 1 2 3 show ?thesis by blast
qed

text \<open>
  C9 as stated fails on a text with two historical years: the score is 0.9, not
  \<open>1 - 0.1 \<times> 2\<close>.
\<close>

theorem historical_reference_counterexample:
  "year_matches ''In 1900 and 1950'' = [1900, 1950]
   \<and> temporal_consistency_score (check_temporal_consistency ''In 1900 and 1950'') = 0.9
   \<and> spec_historical_score ''In 1900 and 1950'' = 0.8"
  by code_simp

subsection \<open>The rhetorical analysis of a text without words\<close>

text \<open>
  C8 fails in the code. On the empty text the readability falls back to its defaults,
  but the emotional and the loaded language analyses divide by the number of words
  outside any handler: \<open>analyze_text\<close> raises \<open>ZeroDivisionError\<close>, and so does
  \<open>improved_detection\<close> on its normal path.
\<close>

theorem empty_text_raises:
  "analyze_emotional_language '''' = Inl ZeroDivisionError
   \<and> detect_loaded_language m '''' = Inl ZeroDivisionError
   \<and> analyze_readability ts '''' = readability_defaults
   \<and> analyze_text lib '''' = Inl ZeroDivisionError
   \<and> normal_path env b '''' empty_config r = Inl ZeroDivisionError
   \<and> improved_detection (env\<lparr>verifier := False\<rparr>) b '''' None = Inl ZeroDivisionError"
proof -
  have s: "split '''' = []" by (simp add: split_def)
  have e: "analyze_emotional_language '''' = Inl ZeroDivisionError"
    by (simp add: analyze_emotional_language_def s Let_def)
  have l: "detect_loaded_language m '''' = Inl ZeroDivisionError"
    by (simp add: detect_loaded_language_def s Let_def)
  have rd: "analyze_readability ts '''' = readability_defaults"
    by (simp add: analyze_readability_def s Let_def split: option.splits)
  have a: "analyze_text lib '''' = Inl ZeroDivisionError" for lib
    by (simp add: analyze_text_def e)
  have n: "normal_path env b '''' empty_config r = Inl ZeroDivisionError" for env r
    by (simp add: normal_path_def a empty_config_def dget_simps Let_def)
  have i: "improved_detection (env\<lparr>verifier := False\<rparr>) b '''' None = Inl ZeroDivisionError"
    by (simp add: improved_detection_def n dget_simps Let_def)
  from e l rd a n i show ?thesis by blast
qed

end
